theory Spec2Isabelle
  imports
    Main
    "HOL-Library.Char_ord"
    "HOL-Library.List_Lexorder"
    "HOL-Library.Product_Lexorder"
    "HOL-Library.Multiset"
begin

section \<open>JavaScript values and documents\<close>

text \<open>
  The request bodies are parsed JSON and the stored documents are Firestore documents or plain
  JavaScript objects. A field that is not there reads as \<open>undefined\<close>. The handlers only test
  values for truthiness, compare them with \<open>===\<close> / \<open>!==\<close>, use them as property keys and copy
  them. Numbers are integers here (the handlers never compute with them); JSON arrays are not
  part of the model. \<open>ServerTimestamp\<close> is the sentinel
  \<^verbatim>\<open>admin.firestore.FieldValue.serverTimestamp()\<close>, \<open>Timestamp t\<close> the time the store puts in
  its place when it writes the document.
\<close>

datatype jsval =
    Undefined
  | Null
  | JBool bool
  | JNum int
  | JStr string
  | ServerTimestamp
  | Timestamp nat
  | JObj "string \<Rightarrow> jsval option"

type_synonym doc = "string \<Rightarrow> jsval option"

text \<open>JavaScript's ToBoolean: what \<^verbatim>\<open>if (v)\<close>, \<^verbatim>\<open>!v\<close> and \<^verbatim>\<open>v || d\<close> look at.\<close>

fun truthy :: "jsval \<Rightarrow> bool" where
  "truthy Undefined = False"
| "truthy Null = False"
| "truthy (JBool b) = b"
| "truthy (JNum n) = (n \<noteq> 0)"
| "truthy (JStr s) = (s \<noteq> [])"
| "truthy ServerTimestamp = True"
| "truthy (Timestamp t) = True"
| "truthy (JObj d) = True"

text \<open>\<^verbatim>\<open>a || b\<close>\<close>

definition js_or :: "jsval \<Rightarrow> jsval \<Rightarrow> jsval" where
  "js_or a b = (if truthy a then a else b)"

text \<open>
  \<^verbatim>\<open>a === b\<close>: primitives are compared by value, objects by identity. An object read from a
  request and one read from the store are never the same object.
\<close>

fun is_object :: "jsval \<Rightarrow> bool" where
  "is_object (JObj d) = True"
| "is_object ServerTimestamp = True"
| "is_object (Timestamp t) = True"
| "is_object v = False"

definition strict_eq :: "jsval \<Rightarrow> jsval \<Rightarrow> bool" where
  "strict_eq a b = (a = b \<and> \<not> is_object a)"

text \<open>\<^verbatim>\<open>obj.k\<close>: the value under the key, \<open>undefined\<close> when the key is not there.\<close>

definition field :: "doc \<Rightarrow> string \<Rightarrow> jsval" where
  "field d k = (case d k of None \<Rightarrow> Undefined | Some v \<Rightarrow> v)"

text \<open>Object spread \<^verbatim>\<open>{ ...a, ...b }\<close> is \<open>a ++ b\<close>: the keys of \<open>b\<close> win.\<close>

text \<open>
  The conversion of a value to a string, as a template literal \<^verbatim>\<open>`${v}`\<close> and a property
  access \<^verbatim>\<open>obj[v]\<close> apply it, throws a \<open>TypeError\<close> for an object that has a property
  \<open>toString\<close> of its own: in a parsed JSON object that property is not a function, and the
  inherited \<open>valueOf\<close> returns the object itself, so the object has no primitive value. Every
  other value of the model converts.
\<close>

fun to_string_throws :: "jsval \<Rightarrow> bool" where
  "to_string_throws (JObj d) = (d ''toString'' \<noteq> None)"
| "to_string_throws v = False"

section \<open>Responses\<close>

text \<open>
  The JSON bodies the handlers send, by shape. Two more bodies arise in the in-memory service:
  \<open>InheritedBody userId\<close> is \<^verbatim>\<open>{userId, reminders}\<close> where \<open>reminders\<close> is a value inherited
  from \<^verbatim>\<open>Object.prototype\<close>, not a list; \<open>ErrorPage msg\<close> is the page with which the framework
  answers (status 500) when a handler throws the error \<open>msg\<close> and does not catch it.
\<close>

datatype body =
    ErrorBody string
  | ErrorDetailsBody string string
  | MessageBody string
  | ReminderBody string doc
  | RemindersBody string "doc list"
  | ArrayBody "doc list"
  | InheritedBody string
  | ErrorPage string

datatype response = Response (status: nat) (json: body)

datatype js_error = Error (message: string)

section \<open>The document store\<close>

text \<open>
  Modelled from the spec: the document store (Firestore, reached through \<^verbatim>\<open>firebase-admin\<close>) is
  not code of this repository. Section 6 of the specification gives its contract:
  \<open>insert(collection, record) \<rightarrow> generatedId\<close>, \<open>get(collection, id) \<rightarrow> record | absent\<close>,
  \<open>query(collection, equalityFilters, orderBy?) \<rightarrow> list\<close>, \<open>update(collection, id, partialFields)\<close>,
  \<open>delete(collection, id)\<close> and a server-side timestamp; section 4.1 adds that a membership
  filter against an empty set is an error. Any call may throw, because the store fails or because
  the client library rejects the arguments: which calls throw, the identifier the store generates
  and its clock are parameters (\<open>env\<close>). A call that throws writes nothing.
  Every call issued is recorded in \<open>calls\<close>, in order. Beyond the spec, two rejections of the
  store's own are written out, since the handlers can reach them: a document id that is not a
  non-empty string, and \<open>undefined\<close> as the value of an equality filter.
\<close>

datatype op_kind =
    UsersGet | UsersQuery | LogsAdd
  | RemindersAdd | RemindersGet | RemindersQuery | RemindersUpdate | RemindersDelete

datatype store_call =
    UsersDocGet jsval
  | UsersWhereOrgRole jsval string
  | LogsAddCall doc
  | RemindersAddCall doc
  | RemindersDocGet string
  | RemindersWhereUserIdEq string
  | RemindersWhereUserIdIn "string list"
  | RemindersDocUpdate string doc
  | RemindersDocDelete string

record env =
  faults :: "op_kind \<Rightarrow> string option"
  auto_id :: string
  now :: nat

record firestore =
  reminders :: "(string \<times> doc) list"
  users :: "(string \<times> doc) list"
  logs :: "doc list"
  calls :: "store_call list"

definition issue :: "store_call \<Rightarrow> firestore \<Rightarrow> firestore" where
  "issue c s = s\<lparr>calls := calls s @ [c]\<rparr>"

text \<open>The store replaces the timestamp sentinel when it writes a document.\<close>

definition resolve :: "nat \<Rightarrow> doc \<Rightarrow> doc" where
  "resolve t d = (\<lambda>k. case d k of Some ServerTimestamp \<Rightarrow> Some (Timestamp t) | v \<Rightarrow> v)"

text \<open>
  The order of \<open>orderBy(field, 'asc')\<close>: values are ordered by type first, numbers by value,
  strings lexicographically.
\<close>

fun order_key :: "jsval option \<Rightarrow> nat \<times> int \<times> string" where
  "order_key None = (0, 0, [])"
| "order_key (Some Undefined) = (0, 0, [])"
| "order_key (Some Null) = (1, 0, [])"
| "order_key (Some (JBool b)) = (2, (if b then 1 else 0), [])"
| "order_key (Some (JNum n)) = (3, n, [])"
| "order_key (Some ServerTimestamp) = (4, 0, [])"
| "order_key (Some (Timestamp t)) = (4, int t, [])"
| "order_key (Some (JStr s)) = (5, 0, s)"
| "order_key (Some (JObj d)) = (6, 0, [])"

definition users_doc_get ::
  "env \<Rightarrow> jsval \<Rightarrow> firestore \<Rightarrow> (js_error + doc option) \<times> firestore" where
  "users_doc_get e userId s =
     (let s1 = issue (UsersDocGet userId) s in
      case faults e UsersGet of
        Some m \<Rightarrow> (Inl (Error m), s1)
      | None \<Rightarrow>
          (case userId of
             JStr k \<Rightarrow>
               (if k = [] then (Inl (Error ''documentPath is not a valid resource path''), s1)
                else (Inr (map_of (users s1) k), s1))
           | _ \<Rightarrow> (Inl (Error ''documentPath is not a valid resource path''), s1)))"

definition users_where_org_role ::
  "env \<Rightarrow> jsval \<Rightarrow> string \<Rightarrow> firestore \<Rightarrow> (js_error + (string \<times> doc) list) \<times> firestore" where
  "users_where_org_role e organizationId role s =
     (let s1 = issue (UsersWhereOrgRole organizationId role) s in
      case faults e UsersQuery of
        Some m \<Rightarrow> (Inl (Error m), s1)
      | None \<Rightarrow>
          (if organizationId = Undefined then
             (Inl (Error ''Cannot use undefined as a Firestore value''), s1)
           else
             (Inr (filter (\<lambda>(k, d). d ''organizationId'' = Some organizationId
                                    \<and> d ''role'' = Some (JStr role)) (users s1)), s1)))"

definition logs_add :: "env \<Rightarrow> doc \<Rightarrow> firestore \<Rightarrow> (js_error + unit) \<times> firestore" where
  "logs_add e logEntry s =
     (let s1 = issue (LogsAddCall logEntry) s in
      case faults e LogsAdd of
        Some m \<Rightarrow> (Inl (Error m), s1)
      | None \<Rightarrow> (Inr (), s1\<lparr>logs := logs s1 @ [resolve (now e) logEntry]\<rparr>))"

definition reminders_add :: "env \<Rightarrow> doc \<Rightarrow> firestore \<Rightarrow> (js_error + string) \<times> firestore" where
  "reminders_add e reminderData s =
     (let s1 = issue (RemindersAddCall reminderData) s in
      case faults e RemindersAdd of
        Some m \<Rightarrow> (Inl (Error m), s1)
      | None \<Rightarrow>
          (Inr (auto_id e),
           s1\<lparr>reminders := reminders s1 @ [(auto_id e, resolve (now e) reminderData)]\<rparr>))"

definition reminders_doc_get ::
  "env \<Rightarrow> string \<Rightarrow> firestore \<Rightarrow> (js_error + doc option) \<times> firestore" where
  "reminders_doc_get e reminderId s =
     (let s1 = issue (RemindersDocGet reminderId) s in
      case faults e RemindersGet of
        Some m \<Rightarrow> (Inl (Error m), s1)
      | None \<Rightarrow> (Inr (map_of (reminders s1) reminderId), s1))"

definition by_datetime :: "(string \<times> doc) list \<Rightarrow> (string \<times> doc) list" where
  "by_datetime ds = sort_key (\<lambda>(k, d). order_key (d ''datetime'')) ds"

definition reminders_where_userId_eq ::
  "env \<Rightarrow> string \<Rightarrow> firestore \<Rightarrow> (js_error + (string \<times> doc) list) \<times> firestore" where
  "reminders_where_userId_eq e userId s =
     (let s1 = issue (RemindersWhereUserIdEq userId) s in
      case faults e RemindersQuery of
        Some m \<Rightarrow> (Inl (Error m), s1)
      | None \<Rightarrow>
          (Inr (by_datetime (filter (\<lambda>(k, d). d ''userId'' = Some (JStr userId)) (reminders s1))),
           s1))"

definition reminders_where_userId_in ::
  "env \<Rightarrow> string list \<Rightarrow> firestore \<Rightarrow> (js_error + (string \<times> doc) list) \<times> firestore" where
  "reminders_where_userId_in e ids s =
     (let s1 = issue (RemindersWhereUserIdIn ids) s in
      case faults e RemindersQuery of
        Some m \<Rightarrow> (Inl (Error m), s1)
      | None \<Rightarrow>
          (if ids = [] then
             (Inl (Error ''A non-empty array is required for in filters''), s1)
           else
             (Inr (by_datetime
                     (filter (\<lambda>(k, d). \<exists>u \<in> set ids. d ''userId'' = Some (JStr u)) (reminders s1))),
              s1)))"

definition reminders_doc_update ::
  "env \<Rightarrow> string \<Rightarrow> doc \<Rightarrow> firestore \<Rightarrow> (js_error + unit) \<times> firestore" where
  "reminders_doc_update e reminderId updates s =
     (let s1 = issue (RemindersDocUpdate reminderId updates) s in
      case faults e RemindersUpdate of
        Some m \<Rightarrow> (Inl (Error m), s1)
      | None \<Rightarrow>
          (Inr (),
           s1\<lparr>reminders :=
                 map (\<lambda>(k, d). if k = reminderId then (k, d ++ updates) else (k, d)) (reminders s1)\<rparr>))"

definition reminders_doc_delete ::
  "env \<Rightarrow> string \<Rightarrow> firestore \<Rightarrow> (js_error + unit) \<times> firestore" where
  "reminders_doc_delete e reminderId s =
     (let s1 = issue (RemindersDocDelete reminderId) s in
      case faults e RemindersDelete of
        Some m \<Rightarrow> (Inl (Error m), s1)
      | None \<Rightarrow> (Inr (), s1\<lparr>reminders := filter (\<lambda>(k, d). k \<noteq> reminderId) (reminders s1)\<rparr>))"

section \<open>The service on Firestore with the audit log (\<^verbatim>\<open>src/server.js\<close>, second revision)\<close>

text \<open>
  \<^verbatim>\<open>src/server.js\<close> holds two revisions of the Firestore service. The second one (from
  \<^verbatim>\<open>logChange\<close> on) is the first one plus the audit log and the organisation listing; its
  handlers are the ones modelled here. A handler takes the environment, the request's parts and
  the store, and returns the response and the store. Each \<^verbatim>\<open>await\<close> inside the handler's
  \<^verbatim>\<open>try\<close> is a store call that may throw into the handler's \<^verbatim>\<open>catch\<close>.
\<close>

subsection \<open>\<^verbatim>\<open>logChange\<close>\<close>

definition user_name :: "js_error + doc option \<Rightarrow> jsval" where
  "user_name r =
     (case r of
        Inl err \<Rightarrow> JStr ''Unknown''
      | Inr None \<Rightarrow> JStr ''Unknown''
      | Inr (Some userDoc) \<Rightarrow> js_or (field userDoc ''name'') (JStr ''Unnamed User''))"

definition log_entry :: "string \<Rightarrow> jsval \<Rightarrow> jsval \<Rightarrow> string \<Rightarrow> string \<Rightarrow> jsval \<Rightarrow> doc \<Rightarrow> doc" where
  "log_entry action userId userName entity entityId entityName details =
     [''timestamp'' \<mapsto> ServerTimestamp,
      ''action'' \<mapsto> JStr action,
      ''userId'' \<mapsto> js_or userId (JStr ''unknown''),
      ''userName'' \<mapsto> userName,
      ''entity'' \<mapsto> JStr entity,
      ''entityId'' \<mapsto> JStr entityId,
      ''entityName'' \<mapsto> js_or entityName (JStr ''N/A''),
      ''details'' \<mapsto> JObj details]"

text \<open>
  The inner \<^verbatim>\<open>try\<close> keeps \<open>'Unknown'\<close> when the lookup throws, and its \<^verbatim>\<open>catch\<close> writes
  \<^verbatim>\<open>`Error fetching user ${userId}:`\<close> to the console. When that conversion of \<open>userId\<close>
  throws, the error leaves the inner \<^verbatim>\<open>catch\<close>, the outer \<^verbatim>\<open>catch\<close> takes it, and the entry
  is neither built nor appended. The outer \<^verbatim>\<open>catch\<close> only writes to the console, so the
  function returns normally whatever happened inside (also when the closing \<^verbatim>\<open>console.log\<close>
  throws on a conversion, after the append).
\<close>

definition logChange ::
  "env \<Rightarrow> string \<Rightarrow> jsval \<Rightarrow> string \<Rightarrow> string \<Rightarrow> jsval \<Rightarrow> doc \<Rightarrow> firestore
     \<Rightarrow> (js_error + unit) \<times> firestore" where
  "logChange e action userId entity entityId entityName details s =
     (case users_doc_get e userId s of
        (r, s1) \<Rightarrow>
          (if isl r \<and> to_string_throws userId then (Inr (), s1)
           else
             (let userName = user_name r;
                  logEntry = log_entry action userId userName entity entityId entityName details
              in case logs_add e logEntry s1 of
                   (Inl err, s2) \<Rightarrow> (Inr (), s2)
                 | (Inr u, s2) \<Rightarrow> (Inr (), s2))))"

subsection \<open>\<^verbatim>\<open>app.post('/reminders')\<close>\<close>

definition reminder_data :: "jsval \<Rightarrow> jsval \<Rightarrow> jsval \<Rightarrow> jsval \<Rightarrow> doc" where
  "reminder_data userId title description datetime =
     [''userId'' \<mapsto> userId,
      ''title'' \<mapsto> title,
      ''description'' \<mapsto> js_or description (JStr []),
      ''datetime'' \<mapsto> datetime,
      ''completed'' \<mapsto> JBool False,
      ''createdAt'' \<mapsto> ServerTimestamp]"

definition post_reminders ::
  "env \<Rightarrow> jsval \<Rightarrow> jsval \<Rightarrow> jsval \<Rightarrow> jsval \<Rightarrow> firestore \<Rightarrow> response \<times> firestore" where
  "post_reminders e userId title description datetime s =
     (if \<not> truthy userId \<or> \<not> truthy title \<or> \<not> truthy datetime then
        (Response 400 (ErrorBody ''User ID, title, and datetime are required''), s)
      else
        (let reminderData = reminder_data userId title description datetime in
         case reminders_add e reminderData s of
           (Inl err, s1) \<Rightarrow>
             (Response 500 (ErrorDetailsBody ''Failed to create reminder'' (message err)), s1)
         | (Inr docId, s1) \<Rightarrow>
             (let newReminder = [''reminderId'' \<mapsto> JStr docId] ++ reminderData in
              case logChange e ''CREATE'' userId ''Reminder'' docId title
                     [''data'' \<mapsto> JObj reminderData] s1 of
                (Inl err, s2) \<Rightarrow>
                  (Response 500 (ErrorDetailsBody ''Failed to create reminder'' (message err)), s2)
              | (Inr u, s2) \<Rightarrow>
                  (Response 201 (ReminderBody ''Reminder created successfully'' newReminder), s2))))"

subsection \<open>\<^verbatim>\<open>app.get('/reminders/:userId')\<close>\<close>

definition with_id :: "string \<Rightarrow> string \<times> doc \<Rightarrow> doc" where
  "with_id key = (\<lambda>(k, d). [key \<mapsto> JStr k] ++ d)"

definition get_reminders :: "env \<Rightarrow> string \<Rightarrow> firestore \<Rightarrow> response \<times> firestore" where
  "get_reminders e userId s =
     (case reminders_where_userId_eq e userId s of
        (Inl err, s1) \<Rightarrow>
          (Response 500 (ErrorDetailsBody ''Failed to fetch reminders'' (message err)), s1)
      | (Inr docs, s1) \<Rightarrow>
          (if docs = [] then (Response 200 (RemindersBody userId []), s1)
           else (Response 200 (RemindersBody userId (map (with_id ''reminderId'') docs)), s1)))"

subsection \<open>\<^verbatim>\<open>app.get('/api/reminders/all')\<close>\<close>

definition in_filter :: "string list \<Rightarrow> string list" where
  "in_filter patientIds = (if length patientIds > 0 then patientIds else [''none''])"

definition get_api_reminders_all :: "env \<Rightarrow> jsval \<Rightarrow> firestore \<Rightarrow> response \<times> firestore" where
  "get_api_reminders_all e organizationId s =
     (case users_where_org_role e organizationId ''user'' s of
        (Inl err, s1) \<Rightarrow> (Response 500 (ArrayBody []), s1)
      | (Inr patients, s1) \<Rightarrow>
          (if patients = [] then (Response 200 (ArrayBody []), s1)
           else
             (let patientIds = map fst patients in
              case reminders_where_userId_in e (in_filter patientIds) s1 of
                (Inl err, s2) \<Rightarrow> (Response 500 (ArrayBody []), s2)
              | (Inr docs, s2) \<Rightarrow> (Response 200 (ArrayBody (map (with_id ''id'') docs)), s2))))"

subsection \<open>\<^verbatim>\<open>app.put('/reminders/:reminderId')\<close>\<close>

text \<open>The object \<^verbatim>\<open>updates\<close>, built field by field.\<close>

definition put_updates :: "jsval \<Rightarrow> jsval \<Rightarrow> jsval \<Rightarrow> jsval \<Rightarrow> doc" where
  "put_updates title description datetime completed =
     (let u0 = Map.empty;
          u1 = (if truthy title then u0(''title'' \<mapsto> title) else u0);
          u2 = (if description \<noteq> Undefined then u1(''description'' \<mapsto> description) else u1);
          u3 = (if truthy datetime then u2(''datetime'' \<mapsto> datetime) else u2);
          u4 = (if completed \<noteq> Undefined then u3(''completed'' \<mapsto> completed) else u3)
      in u4)"

text \<open>\<^verbatim>\<open>!doc.exists || doc.data().userId !== userId\<close>\<close>

definition not_found_or_unauthorized :: "doc option \<Rightarrow> jsval \<Rightarrow> bool" where
  "not_found_or_unauthorized snapshot userId =
     (case snapshot of
        None \<Rightarrow> True
      | Some d \<Rightarrow> \<not> strict_eq (field d ''userId'') userId)"

definition put_reminders ::
  "env \<Rightarrow> string \<Rightarrow> jsval \<Rightarrow> jsval \<Rightarrow> jsval \<Rightarrow> jsval \<Rightarrow> jsval \<Rightarrow> firestore
     \<Rightarrow> response \<times> firestore" where
  "put_reminders e reminderId userId title description datetime completed s =
     (if \<not> truthy userId then (Response 400 (ErrorBody ''User ID is required''), s)
      else
        (case reminders_doc_get e reminderId s of
           (Inl err, s1) \<Rightarrow>
             (Response 500 (ErrorDetailsBody ''Failed to update reminder'' (message err)), s1)
         | (Inr snapshot, s1) \<Rightarrow>
             (if not_found_or_unauthorized snapshot userId then
                (Response 404 (ErrorBody ''Reminder not found or unauthorized''), s1)
              else
                (let oldData = (case snapshot of Some d \<Rightarrow> d | None \<Rightarrow> Map.empty);
                     updates = put_updates title description datetime completed
                 in case reminders_doc_update e reminderId updates s1 of
                      (Inl err, s2) \<Rightarrow>
                        (Response 500
                           (ErrorDetailsBody ''Failed to update reminder'' (message err)), s2)
                    | (Inr u, s2) \<Rightarrow>
                        (let updatedReminder =
                               [''reminderId'' \<mapsto> JStr reminderId] ++ oldData ++ updates
                         in case logChange e ''UPDATE'' userId ''Reminder'' reminderId
                                   (js_or title (field oldData ''title''))
                                   [''oldData'' \<mapsto> JObj oldData, ''newData'' \<mapsto> JObj updates] s2 of
                              (Inl err, s3) \<Rightarrow>
                                (Response 500
                                   (ErrorDetailsBody ''Failed to update reminder'' (message err)), s3)
                            | (Inr u', s3) \<Rightarrow>
                                (Response 200
                                   (ReminderBody ''Reminder updated successfully'' updatedReminder),
                                 s3))))))"

subsection \<open>\<^verbatim>\<open>app.delete('/reminders/:reminderId')\<close>\<close>

definition delete_reminders ::
  "env \<Rightarrow> string \<Rightarrow> jsval \<Rightarrow> firestore \<Rightarrow> response \<times> firestore" where
  "delete_reminders e reminderId userId s =
     (if \<not> truthy userId then (Response 400 (ErrorBody ''User ID is required''), s)
      else
        (case reminders_doc_get e reminderId s of
           (Inl err, s1) \<Rightarrow>
             (Response 500 (ErrorDetailsBody ''Failed to delete reminder'' (message err)), s1)
         | (Inr snapshot, s1) \<Rightarrow>
             (if not_found_or_unauthorized snapshot userId then
                (Response 404 (ErrorBody ''Reminder not found or unauthorized''), s1)
              else
                (let reminderData = (case snapshot of Some d \<Rightarrow> d | None \<Rightarrow> Map.empty) in
                 case logChange e ''DELETE'' userId ''Reminder'' reminderId
                        (field reminderData ''title'') [''data'' \<mapsto> JObj reminderData] s1 of
                   (Inl err, s2) \<Rightarrow>
                     (Response 500
                        (ErrorDetailsBody ''Failed to delete reminder'' (message err)), s2)
                 | (Inr u, s2) \<Rightarrow>
                     (case reminders_doc_delete e reminderId s2 of
                        (Inl err, s3) \<Rightarrow>
                          (Response 500
                             (ErrorDetailsBody ''Failed to delete reminder'' (message err)), s3)
                      | (Inr u', s3) \<Rightarrow>
                          (Response 200 (MessageBody ''Reminder deleted successfully''), s3))))))"

section \<open>The in-memory service (\<^verbatim>\<open>src/unnamed/part_000\<close>)\<close>

text \<open>
  The mock database \<^verbatim>\<open>let reminders = {}\<close> maps a user id to the array of that user's
  reminders, in the order they were pushed. A reminder is the object the create handler builds;
  a key whose value is \<open>undefined\<close> is in the object (and is left out when the response is
  serialised). The handlers have no \<^verbatim>\<open>try\<close>: an error thrown in one is answered by the
  framework with status 500.
\<close>

type_synonym mem_store = "string \<Rightarrow> doc list option"

text \<open>
  \<^verbatim>\<open>reminders\<close> is a plain object, so \<^verbatim>\<open>reminders[key]\<close> also finds the names it inherits from
  \<^verbatim>\<open>Object.prototype\<close>: functions, and for \<open>__proto__\<close> the prototype object. All of them are
  truthy and none is an array. A bucket of the store's own under the key comes first.
\<close>

definition object_prototype_names :: "string list" where
  "object_prototype_names =
     [''constructor'', ''__defineGetter__'', ''__defineSetter__'', ''hasOwnProperty'',
      ''__lookupGetter__'', ''__lookupSetter__'', ''isPrototypeOf'', ''propertyIsEnumerable'',
      ''toString'', ''valueOf'', ''__proto__'', ''toLocaleString'']"

datatype slot = Missing | Bucket "doc list" | Inherited

definition get_slot :: "mem_store \<Rightarrow> string \<Rightarrow> slot" where
  "get_slot m key =
     (case m key of
        Some rs \<Rightarrow> Bucket rs
      | None \<Rightarrow> (if key \<in> set object_prototype_names then Inherited else Missing))"

text \<open>
  \<^verbatim>\<open>reminders[userId]\<close> converts \<open>userId\<close> to a string first, which can throw. The string of a
  number is the runtime's business (the decimal numeral for an integer a double holds exactly
  below \<open>2^53\<close>, an exponent form from \<open>1e21\<close> on): it is the parameter \<open>number_to_string\<close>.
\<close>

definition prop_key :: "(int \<Rightarrow> string) \<Rightarrow> jsval \<Rightarrow> js_error + string" where
  "prop_key number_to_string v =
     (if to_string_throws v then Inl (Error ''Cannot convert object to primitive value'')
      else
        Inr (case v of
               JStr s \<Rightarrow> s
             | JNum n \<Rightarrow> number_to_string n
             | JBool b \<Rightarrow> (if b then ''true'' else ''false'')
             | Null \<Rightarrow> ''null''
             | Undefined \<Rightarrow> ''undefined''
             | _ \<Rightarrow> ''[object Object]''))"

text \<open>\<^verbatim>\<open>r => r.reminderId === reminderId\<close>\<close>

definition has_id :: "string \<Rightarrow> doc \<Rightarrow> bool" where
  "has_id reminderId r = strict_eq (field r ''reminderId'') (JStr reminderId)"

definition mem_post_reminders ::
  "(int \<Rightarrow> string) \<Rightarrow> string \<Rightarrow> jsval \<Rightarrow> jsval \<Rightarrow> jsval \<Rightarrow> jsval \<Rightarrow> mem_store
     \<Rightarrow> response \<times> mem_store" where
  "mem_post_reminders number_to_string uuidv4 userId title description datetime m =
     (if \<not> truthy userId \<or> \<not> truthy title \<or> \<not> truthy datetime then
        (Response 400 (ErrorBody ''User ID, title, and datetime are required''), m)
      else
        (let reminderId = uuidv4;
             newReminder =
               [''reminderId'' \<mapsto> JStr reminderId,
                ''userId'' \<mapsto> userId,
                ''title'' \<mapsto> title,
                ''description'' \<mapsto> description,
                ''datetime'' \<mapsto> datetime,
                ''completed'' \<mapsto> JBool False]
         in case prop_key number_to_string userId of
              Inl err \<Rightarrow> (Response 500 (ErrorPage (message err)), m)
            | Inr key \<Rightarrow>
                (case get_slot m key of
                   Missing \<Rightarrow>
                     (Response 201 (ReminderBody ''Reminder created successfully'' newReminder),
                      m(key \<mapsto> [] @ [newReminder]))
                 | Bucket rs \<Rightarrow>
                     (Response 201 (ReminderBody ''Reminder created successfully'' newReminder),
                      m(key \<mapsto> rs @ [newReminder]))
                 | Inherited \<Rightarrow>
                     (Response 500 (ErrorPage ''reminders[userId].push is not a function''), m))))"

definition mem_get_reminders :: "string \<Rightarrow> mem_store \<Rightarrow> response \<times> mem_store" where
  "mem_get_reminders userId m =
     (case get_slot m userId of
        Missing \<Rightarrow> (Response 404 (MessageBody ''No reminders found for this user''), m)
      | Bucket rs \<Rightarrow> (Response 200 (RemindersBody userId rs), m)
      | Inherited \<Rightarrow> (Response 200 (InheritedBody userId), m))"

text \<open>The assignments to the reminder that \<^verbatim>\<open>find\<close> returned.\<close>

definition mem_assign :: "jsval \<Rightarrow> jsval \<Rightarrow> jsval \<Rightarrow> jsval \<Rightarrow> doc \<Rightarrow> doc" where
  "mem_assign title description datetime completed reminder =
     (let r1 = (if truthy title then reminder(''title'' \<mapsto> title) else reminder);
          r2 = (if truthy description then r1(''description'' \<mapsto> description) else r1);
          r3 = (if truthy datetime then r2(''datetime'' \<mapsto> datetime) else r2);
          r4 = (if completed \<noteq> Undefined then r3(''completed'' \<mapsto> completed) else r3)
      in r4)"

text \<open>The reminder is changed in place: the first element \<^verbatim>\<open>find\<close> matches is the one.\<close>

fun update_first :: "('a \<Rightarrow> bool) \<Rightarrow> ('a \<Rightarrow> 'a) \<Rightarrow> 'a list \<Rightarrow> 'a list" where
  "update_first P f [] = []"
| "update_first P f (x # xs) = (if P x then f x # xs else x # update_first P f xs)"

definition mem_put_reminders ::
  "(int \<Rightarrow> string) \<Rightarrow> string \<Rightarrow> jsval \<Rightarrow> jsval \<Rightarrow> jsval \<Rightarrow> jsval \<Rightarrow> jsval \<Rightarrow> mem_store
     \<Rightarrow> response \<times> mem_store" where
  "mem_put_reminders number_to_string reminderId userId title description datetime completed m =
     (if \<not> truthy userId then (Response 404 (ErrorBody ''User not found''), m)
      else
        (case prop_key number_to_string userId of
           Inl err \<Rightarrow> (Response 500 (ErrorPage (message err)), m)
         | Inr key \<Rightarrow>
             (case get_slot m key of
                Missing \<Rightarrow> (Response 404 (ErrorBody ''User not found''), m)
              | Inherited \<Rightarrow>
                  (Response 500 (ErrorPage ''reminders[userId].find is not a function''), m)
              | Bucket rs \<Rightarrow>
                  (case find (has_id reminderId) rs of
                     None \<Rightarrow> (Response 404 (ErrorBody ''Reminder not found''), m)
                   | Some reminder \<Rightarrow>
                       (Response 200
                          (ReminderBody ''Reminder updated successfully''
                             (mem_assign title description datetime completed reminder)),
                        m(key \<mapsto>
                            update_first (has_id reminderId)
                              (mem_assign title description datetime completed) rs))))))"

definition mem_delete_reminders ::
  "(int \<Rightarrow> string) \<Rightarrow> string \<Rightarrow> jsval \<Rightarrow> mem_store \<Rightarrow> response \<times> mem_store" where
  "mem_delete_reminders number_to_string reminderId userId m =
     (if \<not> truthy userId then (Response 404 (ErrorBody ''User not found''), m)
      else
        (case prop_key number_to_string userId of
           Inl err \<Rightarrow> (Response 500 (ErrorPage (message err)), m)
         | Inr key \<Rightarrow>
             (case get_slot m key of
                Missing \<Rightarrow> (Response 404 (ErrorBody ''User not found''), m)
              | Inherited \<Rightarrow>
                  (Response 500 (ErrorPage ''reminders[userId].filter is not a function''), m)
              | Bucket rs \<Rightarrow>
                  (Response 200 (MessageBody ''Reminder deleted successfully''),
                   m(key \<mapsto> filter (\<lambda>r. \<not> has_id reminderId r) rs)))))"

section \<open>Derived notions and example data\<close>

text \<open>The user name \<^verbatim>\<open>logChange\<close> resolves for an acting user in a given store.\<close>

definition resolved_name :: "env \<Rightarrow> jsval \<Rightarrow> firestore \<Rightarrow> jsval" where
  "resolved_name e userId s = user_name (fst (users_doc_get e userId s))"

text \<open>Environments: every store call returns; the logs collection is down; the users collection is down.\<close>

definition no_faults :: env where
  "no_faults = \<lparr>faults = (\<lambda>k. None), auto_id = ''r2'', now = 1704100000\<rparr>"

definition logs_down :: env where
  "logs_down =
     \<lparr>faults = (\<lambda>k. if k = LogsAdd then Some ''logs unavailable'' else None),
      auto_id = ''r2'', now = 1704100000\<rparr>"

definition users_down :: env where
  "users_down =
     \<lparr>faults = (\<lambda>k. if k = UsersGet then Some ''users unavailable'' else None),
      auto_id = ''r2'', now = 1704100000\<rparr>"

text \<open>
  The update is rejected, as the Firestore client library rejects an update without a field.
\<close>

definition update_rejected :: env where
  "update_rejected =
     \<lparr>faults = (\<lambda>k. if k = RemindersUpdate then Some ''At least one field must be updated.''
                      else None),
      auto_id = ''r2'', now = 1704100000\<rparr>"

text \<open>A user id sent as the JSON object \<^verbatim>\<open>{"toString": 1}\<close>: truthy, with no string form.\<close>

definition odd_user :: jsval where
  "odd_user = JObj [''toString'' \<mapsto> JNum 1]"

text \<open>Decimal numerals: the strings of the integers that a double holds exactly below \<open>2^53\<close>.\<close>

fun decimal :: "nat \<Rightarrow> string" where
  "decimal n = (if n < 10 then [char_of (48 + n)] else decimal (n div 10) @ [char_of (48 + n mod 10)])"

definition decimal_string :: "int \<Rightarrow> string" where
  "decimal_string n = (if n < 0 then CHR ''-'' # decimal (nat (- n)) else decimal (nat n))"

text \<open>A store with one reminder of user \<open>u1\<close>, as the create handler writes it.\<close>

definition aspirin :: doc where
  "aspirin =
     [''userId'' \<mapsto> JStr ''u1'',
      ''title'' \<mapsto> JStr ''Take aspirin'',
      ''description'' \<mapsto> JStr ''with food'',
      ''datetime'' \<mapsto> JStr ''2024-01-01T08:00:00Z'',
      ''completed'' \<mapsto> JBool False,
      ''createdAt'' \<mapsto> Timestamp 1704000000]"

definition ann :: doc where
  "ann = [''name'' \<mapsto> JStr ''Ann'', ''role'' \<mapsto> JStr ''user'', ''organizationId'' \<mapsto> JStr ''org1'']"

definition store0 :: firestore where
  "store0 = \<lparr>reminders = [(''r1'', aspirin)], users = [(''u1'', ann)], logs = [], calls = []\<rparr>"

text \<open>Both audit collaborators down: the user lookup and the append to the logs throw.\<close>

definition audit_down :: env where
  "audit_down =
     \<lparr>faults = (\<lambda>k. if k = UsersGet \<or> k = LogsAdd then Some ''unavailable'' else None),
      auto_id = ''r2'', now = 1704100000\<rparr>"

text \<open>The in-memory store with the same reminder in the bucket of \<open>u1\<close>.\<close>

definition mem_aspirin :: doc where
  "mem_aspirin =
     [''reminderId'' \<mapsto> JStr ''r1'',
      ''userId'' \<mapsto> JStr ''u1'',
      ''title'' \<mapsto> JStr ''Take aspirin'',
      ''description'' \<mapsto> JStr ''with food'',
      ''datetime'' \<mapsto> JStr ''2024-01-01T08:00:00Z'',
      ''completed'' \<mapsto> JBool False]"

definition mem0 :: mem_store where
  "mem0 = [''u1'' \<mapsto> [mem_aspirin]]"

text \<open>A store with reminders of two users, not in the order of their datetimes.\<close>

definition drops :: doc where
  "drops =
     [''userId'' \<mapsto> JStr ''u1'',
      ''title'' \<mapsto> JStr ''Eye drops'',
      ''description'' \<mapsto> JStr [],
      ''datetime'' \<mapsto> JStr ''2023-12-31T20:00:00Z'',
      ''completed'' \<mapsto> JBool False,
      ''createdAt'' \<mapsto> Timestamp 1704000100]"

definition vitamins :: doc where
  "vitamins =
     [''userId'' \<mapsto> JStr ''u2'',
      ''title'' \<mapsto> JStr ''Vitamins'',
      ''description'' \<mapsto> JStr [],
      ''datetime'' \<mapsto> JStr ''2023-12-30T09:00:00Z'',
      ''completed'' \<mapsto> JBool False,
      ''createdAt'' \<mapsto> Timestamp 1704000050]"

definition store3 :: firestore where
  "store3 =
     \<lparr>reminders = [(''r1'', aspirin), (''r3'', vitamins), (''r4'', drops)],
      users = [(''u1'', ann)], logs = [], calls = []\<rparr>"

text \<open>An in-memory store where \<open>u1\<close> pushed the evening reminder before the morning one.\<close>

definition mem_evening :: doc where
  "mem_evening =
     [''reminderId'' \<mapsto> JStr ''r0'',
      ''userId'' \<mapsto> JStr ''u1'',
      ''title'' \<mapsto> JStr ''Eye drops'',
      ''description'' \<mapsto> Undefined,
      ''datetime'' \<mapsto> JStr ''2024-01-01T20:00:00Z'',
      ''completed'' \<mapsto> JBool False]"

definition mem2 :: mem_store where
  "mem2 = [''u1'' \<mapsto> [mem_evening, mem_aspirin]]"

section \<open>Properties\<close>

subsection \<open>The store calls and \<^verbatim>\<open>logChange\<close> in closed form\<close>

lemma users_doc_get_snd: "snd (users_doc_get e userId s) = issue (UsersDocGet userId) s"
  unfolding users_doc_get_def by (simp add: Let_def split: option.splits jsval.splits)

lemma resolved_name_frame:
  "resolved_name e userId (s\<lparr>calls := c\<rparr>) = resolved_name e userId s"
  "resolved_name e userId (s\<lparr>reminders := r\<rparr>) = resolved_name e userId s"
  "resolved_name e userId (s\<lparr>logs := l\<rparr>) = resolved_name e userId s"
  unfolding resolved_name_def users_doc_get_def issue_def
  by (simp_all add: Let_def split: option.splits jsval.splits)

lemma to_string_throws_lookup:
  "to_string_throws userId \<Longrightarrow> isl (fst (users_doc_get e userId s))"
  unfolding users_doc_get_def
  by (cases userId) (simp_all add: Let_def split: option.splits)

lemma logChange_eq:
  "logChange e action userId entity entityId entityName details s =
     (Inr (),
      if to_string_throws userId then s\<lparr>calls := calls s @ [UsersDocGet userId]\<rparr>
      else
        s\<lparr>calls := calls s @
            [UsersDocGet userId,
             LogsAddCall
               (log_entry action userId (resolved_name e userId s) entity entityId entityName
                  details)],
          logs := (if faults e LogsAdd = None
                   then logs s @
                     [resolve (now e)
                        (log_entry action userId (resolved_name e userId s) entity entityId
                           entityName details)]
                   else logs s)\<rparr>)"
proof (cases "users_doc_get e userId s")
  case (Pair r s1)
  then have s1: "s1 = issue (UsersDocGet userId) s"
    and r: "user_name r = resolved_name e userId s"
    using users_doc_get_snd [of e userId s] by (simp_all add: resolved_name_def)
  show ?thesis
  proof (cases "to_string_throws userId")
    case True
    with to_string_throws_lookup [of userId e s] Pair have "isl r"
      by simp
    with True show ?thesis
      unfolding logChange_def Pair by (simp add: s1 issue_def)
  next
    case False
    then show ?thesis
      unfolding logChange_def Pair
      by (auto simp: Let_def r s1 logs_add_def issue_def split: option.splits)
  qed
qed

lemma logChange_fst: "fst (logChange e action userId entity entityId entityName details s) = Inr ()"
  by (simp add: logChange_eq)

lemma logChange_frame:
  "reminders (snd (logChange e action userId entity entityId entityName details s)) = reminders s"
  "users (snd (logChange e action userId entity entityId entityName details s)) = users s"
  by (simp_all add: logChange_eq)

lemma logChange_appends:
  assumes "\<not> to_string_throws userId"
  shows "calls (snd (logChange e action userId entity entityId entityName details s)) =
           calls s @
             [UsersDocGet userId,
              LogsAddCall
                (log_entry action userId (resolved_name e userId s) entity entityId entityName
                   details)]"
    and "logs (snd (logChange e action userId entity entityId entityName details s)) =
           (if faults e LogsAdd = None
            then logs s @
              [resolve (now e)
                 (log_entry action userId (resolved_name e userId s) entity entityId entityName
                    details)]
            else logs s)"
  using assms by (simp_all add: logChange_eq)

lemma logChange_gives_up:
  assumes "to_string_throws userId"
  shows "calls (snd (logChange e action userId entity entityId entityName details s)) =
           calls s @ [UsersDocGet userId]"
    and "logs (snd (logChange e action userId entity entityId entityName details s)) = logs s"
  using assms by (simp_all add: logChange_eq)

lemma log_entry_fields:
  "log_entry a u n en eid ename det ''action'' = Some (JStr a)"
  "log_entry a u n en eid ename det ''entityId'' = Some (JStr eid)"
  "log_entry a u n en eid ename det ''userName'' = Some n"
  "log_entry a u n en eid ename det ''details'' = Some (JObj det)"
  "log_entry a u n en eid ename det ''entity'' = Some (JStr en)"
  unfolding log_entry_def by simp_all

lemma resolve_log_entry_fields:
  "resolve t (log_entry a u n en eid ename det) ''action'' = Some (JStr a)"
  "resolve t (log_entry a u n en eid ename det) ''entityId'' = Some (JStr eid)"
  "resolve t (log_entry a u n en eid ename det) ''details'' = Some (JObj det)"
  "resolve t (log_entry a u n en eid ename det) ''timestamp'' = Some (Timestamp t)"
  unfolding resolve_def log_entry_def by simp_all

lemma not_found_or_unauthorized_iff:
  "\<not> not_found_or_unauthorized snapshot userId
   \<longleftrightarrow> (\<exists>old. snapshot = Some old \<and> strict_eq (field old ''userId'') userId)"
  unfolding not_found_or_unauthorized_def by (simp split: option.splits)

subsection \<open>The handlers on their success paths\<close>

lemma post_reminders_ok:
  assumes "truthy userId" "truthy title" "truthy datetime" "faults e RemindersAdd = None"
  shows "post_reminders e userId title description datetime s =
     (Response 201
        (ReminderBody ''Reminder created successfully''
           ([''reminderId'' \<mapsto> JStr (auto_id e)] ++ reminder_data userId title description datetime)),
      snd (logChange e ''CREATE'' userId ''Reminder'' (auto_id e) title
             [''data'' \<mapsto> JObj (reminder_data userId title description datetime)]
             (s\<lparr>reminders := reminders s @
                   [(auto_id e, resolve (now e) (reminder_data userId title description datetime))],
                 calls := calls s @
                   [RemindersAddCall (reminder_data userId title description datetime)]\<rparr>)))"
  using assms unfolding post_reminders_def reminders_add_def issue_def
  by (simp add: Let_def logChange_eq resolved_name_frame)

lemma post_reminders_status:
  "status (fst (post_reminders e userId title description datetime s)) = 201
   \<longleftrightarrow> truthy userId \<and> truthy title \<and> truthy datetime \<and> faults e RemindersAdd = None"
  unfolding post_reminders_def reminders_add_def issue_def
  by (auto simp: Let_def logChange_eq split: option.splits)

lemma put_reminders_ok:
  assumes "truthy userId" "faults e RemindersGet = None"
    and "map_of (reminders s) reminderId = Some old" "strict_eq (field old ''userId'') userId"
    and "faults e RemindersUpdate = None"
  shows "put_reminders e reminderId userId title description datetime completed s =
     (Response 200
        (ReminderBody ''Reminder updated successfully''
           ([''reminderId'' \<mapsto> JStr reminderId] ++ old
              ++ put_updates title description datetime completed)),
      snd (logChange e ''UPDATE'' userId ''Reminder'' reminderId (js_or title (field old ''title''))
             [''oldData'' \<mapsto> JObj old,
              ''newData'' \<mapsto> JObj (put_updates title description datetime completed)]
             (s\<lparr>reminders :=
                   map (\<lambda>(k, d). if k = reminderId
                          then (k, d ++ put_updates title description datetime completed)
                          else (k, d))
                     (reminders s),
                 calls := calls s @
                   [RemindersDocGet reminderId,
                    RemindersDocUpdate reminderId
                      (put_updates title description datetime completed)]\<rparr>)))"
  using assms
  unfolding put_reminders_def reminders_doc_get_def reminders_doc_update_def issue_def
    not_found_or_unauthorized_def
  by (simp add: Let_def logChange_eq resolved_name_frame)

lemma put_reminders_status:
  "status (fst (put_reminders e reminderId userId title description datetime completed s)) = 200
   \<longleftrightarrow> truthy userId \<and> faults e RemindersGet = None
       \<and> \<not> not_found_or_unauthorized (map_of (reminders s) reminderId) userId
       \<and> faults e RemindersUpdate = None"
  unfolding put_reminders_def reminders_doc_get_def reminders_doc_update_def issue_def
  by (auto simp: Let_def logChange_eq split: option.splits)

lemma delete_reminders_ok:
  assumes "truthy userId" "faults e RemindersGet = None"
    and "map_of (reminders s) reminderId = Some old" "strict_eq (field old ''userId'') userId"
    and "faults e RemindersDelete = None"
  shows "delete_reminders e reminderId userId s =
     (Response 200 (MessageBody ''Reminder deleted successfully''),
      (let logged = snd (logChange e ''DELETE'' userId ''Reminder'' reminderId (field old ''title'')
                           [''data'' \<mapsto> JObj old]
                           (s\<lparr>calls := calls s @ [RemindersDocGet reminderId]\<rparr>))
       in logged\<lparr>calls := calls logged @ [RemindersDocDelete reminderId],
                 reminders := filter (\<lambda>(k, d). k \<noteq> reminderId) (reminders s)\<rparr>))"
  using assms
  unfolding delete_reminders_def reminders_doc_get_def reminders_doc_delete_def issue_def
    not_found_or_unauthorized_def
  by (simp add: Let_def logChange_eq resolved_name_frame)

lemma delete_reminders_status:
  "status (fst (delete_reminders e reminderId userId s)) = 200
   \<longleftrightarrow> truthy userId \<and> faults e RemindersGet = None
       \<and> \<not> not_found_or_unauthorized (map_of (reminders s) reminderId) userId
       \<and> faults e RemindersDelete = None"
  unfolding delete_reminders_def reminders_doc_get_def reminders_doc_delete_def issue_def
  by (auto simp: Let_def logChange_eq split: option.splits)

lemma store0_owner: "strict_eq (field aspirin ''userId'') (JStr ''u1'')"
  by (simp add: strict_eq_def field_def aspirin_def)

subsection \<open>The in-memory store and the names it inherits\<close>

text \<open>
  For a key that names an inherited property and has no bucket, the guards see a truthy value
  that is not an array: create, update and delete throw, and the listing answers 200 without a
  list. No handler ever makes a bucket under such a key.
\<close>

lemma mem_inherited_key:
  assumes "truthy userId" "truthy title" "truthy datetime"
    and "prop_key number_to_string userId = Inr key"
    and "m key = None" "key \<in> set object_prototype_names"
  shows "mem_post_reminders number_to_string uuidv4 userId title description datetime m =
           (Response 500 (ErrorPage ''reminders[userId].push is not a function''), m)"
    and "mem_put_reminders number_to_string reminderId userId title' description' datetime' completed m =
           (Response 500 (ErrorPage ''reminders[userId].find is not a function''), m)"
    and "mem_delete_reminders number_to_string reminderId userId m =
           (Response 500 (ErrorPage ''reminders[userId].filter is not a function''), m)"
    and "mem_get_reminders key m = (Response 200 (InheritedBody key), m)"
  using assms
  by (simp_all add: mem_post_reminders_def mem_put_reminders_def mem_delete_reminders_def
        mem_get_reminders_def get_slot_def Let_def)

lemma mem_key_conversion_throws:
  assumes "truthy userId" "truthy title" "truthy datetime" "to_string_throws userId"
  shows "mem_post_reminders number_to_string uuidv4 userId title description datetime m =
           (Response 500 (ErrorPage ''Cannot convert object to primitive value''), m)"
    and "mem_put_reminders number_to_string reminderId userId title' description' datetime' completed m =
           (Response 500 (ErrorPage ''Cannot convert object to primitive value''), m)"
    and "mem_delete_reminders number_to_string reminderId userId m =
           (Response 500 (ErrorPage ''Cannot convert object to primitive value''), m)"
  using assms
  by (simp_all add: mem_post_reminders_def mem_put_reminders_def mem_delete_reminders_def
        prop_key_def Let_def)

lemma mem_no_inherited_bucket:
  assumes "\<forall>k \<in> set object_prototype_names. m k = None"
  shows "\<forall>k \<in> set object_prototype_names.
           snd (mem_post_reminders number_to_string uuidv4 userId title description datetime m) k
             = None"
    and "\<forall>k \<in> set object_prototype_names.
           snd (mem_put_reminders number_to_string reminderId userId title description datetime
                  completed m) k = None"
    and "\<forall>k \<in> set object_prototype_names.
           snd (mem_delete_reminders number_to_string reminderId userId m) k = None"
  using assms
  by (auto simp: mem_post_reminders_def mem_put_reminders_def mem_delete_reminders_def
        get_slot_def Let_def split: sum.splits option.splits if_splits)

lemma mem_inherited_example:
  "mem_post_reminders decimal_string ''r2'' (JStr ''constructor'') (JStr ''Take aspirin'') Undefined
     (JStr ''2024-01-01T08:00:00Z'') mem0 =
     (Response 500 (ErrorPage ''reminders[userId].push is not a function''), mem0)"
  "mem_get_reminders ''toString'' mem0 = (Response 200 (InheritedBody ''toString''), mem0)"
  by (simp_all add: mem_post_reminders_def mem_get_reminders_def prop_key_def get_slot_def
        mem0_def object_prototype_names_def Let_def)

subsection \<open>C1: one audit entry per successful mutation\<close>

text \<open>
  C1, as amended. Every successful create, update and delete of the Firestore service whose
  acting \<open>userId\<close> has a string form (every primitive value, as the documented string is) issues
  exactly one append to the logs collection, after its other calls (for delete: after the lookup
  and before the removal). The entry has the action \<open>CREATE\<close>, \<open>UPDATE\<close> or \<open>DELETE\<close> and the
  reminder's id as \<open>entityId\<close>; the delete entry carries the document as it was read before the
  removal. The entry is added to the log when the append returns; when the append throws, the log
  is unchanged and the operation has succeeded all the same.
\<close>

theorem successful_mutation_issues_one_log_append:
  "(\<forall>r s'. post_reminders e userId title description datetime s = (r, s') \<and> status r = 201
         \<and> \<not> to_string_throws userId \<longrightarrow>
      (\<exists>entry.
          calls s' = calls s @
            [RemindersAddCall (reminder_data userId title description datetime),
             UsersDocGet userId, LogsAddCall entry]
        \<and> resolve (now e) entry ''action'' = Some (JStr ''CREATE'')
        \<and> resolve (now e) entry ''entityId'' = Some (JStr (auto_id e))
        \<and> r = Response 201
              (ReminderBody ''Reminder created successfully''
                 ([''reminderId'' \<mapsto> JStr (auto_id e)]
                    ++ reminder_data userId title description datetime))
        \<and> logs s' = (if faults e LogsAdd = None then logs s @ [resolve (now e) entry] else logs s)))
 \<and> (\<forall>r s'. put_reminders e reminderId userId title description datetime completed s = (r, s')
         \<and> status r = 200 \<and> \<not> to_string_throws userId \<longrightarrow>
      (\<exists>entry.
          calls s' = calls s @
            [RemindersDocGet reminderId,
             RemindersDocUpdate reminderId (put_updates title description datetime completed),
             UsersDocGet userId, LogsAddCall entry]
        \<and> resolve (now e) entry ''action'' = Some (JStr ''UPDATE'')
        \<and> resolve (now e) entry ''entityId'' = Some (JStr reminderId)
        \<and> logs s' = (if faults e LogsAdd = None then logs s @ [resolve (now e) entry] else logs s)))
 \<and> (\<forall>r s'. delete_reminders e reminderId userId s = (r, s') \<and> status r = 200
         \<and> \<not> to_string_throws userId \<longrightarrow>
      (\<exists>entry old.
          map_of (reminders s) reminderId = Some old
        \<and> calls s' = calls s @
            [RemindersDocGet reminderId, UsersDocGet userId, LogsAddCall entry,
             RemindersDocDelete reminderId]
        \<and> resolve (now e) entry ''action'' = Some (JStr ''DELETE'')
        \<and> resolve (now e) entry ''entityId'' = Some (JStr reminderId)
        \<and> resolve (now e) entry ''details'' = Some (JObj [''data'' \<mapsto> JObj old])
        \<and> logs s' = (if faults e LogsAdd = None then logs s @ [resolve (now e) entry] else logs s)
        \<and> reminders s' = filter (\<lambda>(k, d). k \<noteq> reminderId) (reminders s)))"
proof (intro conjI allI impI)
  fix r s'
  assume a: "post_reminders e userId title description datetime s = (r, s') \<and> status r = 201
         \<and> \<not> to_string_throws userId"
  then have "status (fst (post_reminders e userId title description datetime s)) = 201"
    by simp
  then have ok: "truthy userId" "truthy title" "truthy datetime" "faults e RemindersAdd = None"
    by (simp_all add: post_reminders_status)
  from a have nt: "\<not> to_string_throws userId"
    by simp
  from a post_reminders_ok [OF ok, of description s] logChange_appends [OF nt]
  show "\<exists>entry.
          calls s' = calls s @
            [RemindersAddCall (reminder_data userId title description datetime),
             UsersDocGet userId, LogsAddCall entry]
        \<and> resolve (now e) entry ''action'' = Some (JStr ''CREATE'')
        \<and> resolve (now e) entry ''entityId'' = Some (JStr (auto_id e))
        \<and> r = Response 201
              (ReminderBody ''Reminder created successfully''
                 ([''reminderId'' \<mapsto> JStr (auto_id e)]
                    ++ reminder_data userId title description datetime))
        \<and> logs s' = (if faults e LogsAdd = None then logs s @ [resolve (now e) entry] else logs s)"
    by (auto simp: resolve_log_entry_fields)
next
  fix r s'
  assume a: "put_reminders e reminderId userId title description datetime completed s = (r, s')
               \<and> status r = 200 \<and> \<not> to_string_throws userId"
  then have "status (fst (put_reminders e reminderId userId title description datetime completed s))
               = 200"
    by simp
  then obtain old where ok: "truthy userId" "faults e RemindersGet = None"
      "map_of (reminders s) reminderId = Some old" "strict_eq (field old ''userId'') userId"
      "faults e RemindersUpdate = None"
    by (auto simp: put_reminders_status not_found_or_unauthorized_iff)
  from a have nt: "\<not> to_string_throws userId"
    by simp
  from a put_reminders_ok [OF ok, of title description datetime completed]
    logChange_appends [OF nt]
  show "\<exists>entry.
          calls s' = calls s @
            [RemindersDocGet reminderId,
             RemindersDocUpdate reminderId (put_updates title description datetime completed),
             UsersDocGet userId, LogsAddCall entry]
        \<and> resolve (now e) entry ''action'' = Some (JStr ''UPDATE'')
        \<and> resolve (now e) entry ''entityId'' = Some (JStr reminderId)
        \<and> logs s' = (if faults e LogsAdd = None then logs s @ [resolve (now e) entry] else logs s)"
    by (auto simp: resolve_log_entry_fields)
next
  fix r s'
  assume a: "delete_reminders e reminderId userId s = (r, s') \<and> status r = 200
         \<and> \<not> to_string_throws userId"
  then have "status (fst (delete_reminders e reminderId userId s)) = 200"
    by simp
  then obtain old where ok: "truthy userId" "faults e RemindersGet = None"
      "map_of (reminders s) reminderId = Some old" "strict_eq (field old ''userId'') userId"
      "faults e RemindersDelete = None"
    by (auto simp: delete_reminders_status not_found_or_unauthorized_iff)
  from a have nt: "\<not> to_string_throws userId"
    by simp
  from a delete_reminders_ok [OF ok] logChange_appends [OF nt]
  show "\<exists>entry old.
          map_of (reminders s) reminderId = Some old
        \<and> calls s' = calls s @
            [RemindersDocGet reminderId, UsersDocGet userId, LogsAddCall entry,
             RemindersDocDelete reminderId]
        \<and> resolve (now e) entry ''action'' = Some (JStr ''DELETE'')
        \<and> resolve (now e) entry ''entityId'' = Some (JStr reminderId)
        \<and> resolve (now e) entry ''details'' = Some (JObj [''data'' \<mapsto> JObj old])
        \<and> logs s' = (if faults e LogsAdd = None then logs s @ [resolve (now e) entry] else logs s)
        \<and> reminders s' = filter (\<lambda>(k, d). k \<noteq> reminderId) (reminders s)"
    using ok(3) by (auto simp: Let_def resolve_log_entry_fields)
qed

text \<open>
  The claim as written fails where the append throws: the create below answers 201 and the log
  has no new entry.
\<close>

theorem create_succeeds_without_log_entry:
  "status (fst (post_reminders logs_down (JStr ''u1'') (JStr ''Take aspirin'') Undefined
                  (JStr ''2024-01-01T08:00:00Z'') store0)) = 201
   \<and> logs (snd (post_reminders logs_down (JStr ''u1'') (JStr ''Take aspirin'') Undefined
                   (JStr ''2024-01-01T08:00:00Z'') store0)) = logs store0"
proof -
  have "faults logs_down RemindersAdd = None" "faults logs_down LogsAdd \<noteq> None"
    by (simp_all add: logs_down_def)
  moreover have "\<not> to_string_throws (JStr ''u1'')"
    by simp
  ultimately show ?thesis
    by (simp add: post_reminders_ok logChange_appends)
qed

text \<open>
  The theorem at a concrete run: on \<open>store0\<close> with every store call returning, user \<open>u1\<close>
  creates a reminder, updates reminder \<open>r1\<close> and deletes it; each of the three answers with
  success and adds one entry to the log.
\<close>

theorem successful_mutation_issues_one_log_append_witness:
  "status (fst (post_reminders no_faults (JStr ''u1'') (JStr ''Take aspirin'') Undefined
                  (JStr ''2024-01-01T08:00:00Z'') store0)) = 201
   \<and> (\<exists>entry.
          logs (snd (post_reminders no_faults (JStr ''u1'') (JStr ''Take aspirin'') Undefined
                       (JStr ''2024-01-01T08:00:00Z'') store0))
            = logs store0 @ [resolve (now no_faults) entry]
        \<and> resolve (now no_faults) entry ''action'' = Some (JStr ''CREATE'')
        \<and> resolve (now no_faults) entry ''entityId'' = Some (JStr ''r2''))
   \<and> status (fst (put_reminders no_faults ''r1'' (JStr ''u1'') (JStr ''Take aspirin'') Undefined
                     (JStr ''2024-01-01T08:00:00Z'') (JBool True) store0)) = 200
   \<and> (\<exists>entry.
          logs (snd (put_reminders no_faults ''r1'' (JStr ''u1'') (JStr ''Take aspirin'') Undefined
                       (JStr ''2024-01-01T08:00:00Z'') (JBool True) store0))
            = logs store0 @ [resolve (now no_faults) entry]
        \<and> resolve (now no_faults) entry ''action'' = Some (JStr ''UPDATE'')
        \<and> resolve (now no_faults) entry ''entityId'' = Some (JStr ''r1''))
   \<and> status (fst (delete_reminders no_faults ''r1'' (JStr ''u1'') store0)) = 200
   \<and> (\<exists>entry.
          calls (snd (delete_reminders no_faults ''r1'' (JStr ''u1'') store0))
            = calls store0 @ [RemindersDocGet ''r1'', UsersDocGet (JStr ''u1''), LogsAddCall entry,
                              RemindersDocDelete ''r1'']
        \<and> logs (snd (delete_reminders no_faults ''r1'' (JStr ''u1'') store0))
            = logs store0 @ [resolve (now no_faults) entry]
        \<and> resolve (now no_faults) entry ''action'' = Some (JStr ''DELETE'')
        \<and> resolve (now no_faults) entry ''details'' = Some (JObj [''data'' \<mapsto> JObj aspirin]))"
proof -
  let ?u = "JStr ''u1''" and ?t = "JStr ''Take aspirin''" and ?d = "JStr ''2024-01-01T08:00:00Z''"
  have f: "faults no_faults LogsAdd = None" "faults no_faults RemindersAdd = None"
    "faults no_faults RemindersGet = None" "faults no_faults RemindersUpdate = None"
    "faults no_faults RemindersDelete = None" "auto_id no_faults = ''r2''"
    by (simp_all add: no_faults_def)
  have r1: "map_of (reminders store0) ''r1'' = Some aspirin"
    by (simp add: store0_def)
  have nf: "\<not> not_found_or_unauthorized (map_of (reminders store0) ''r1'') ?u"
    by (simp add: r1 not_found_or_unauthorized_def store0_owner)
  have h1: "status (fst (post_reminders no_faults ?u ?t Undefined ?d store0)) = 201"
    by (simp add: post_reminders_status f)
  have h2: "status (fst (put_reminders no_faults ''r1'' ?u ?t Undefined ?d (JBool True) store0)) = 200"
    by (simp add: put_reminders_status f nf)
  have h3: "status (fst (delete_reminders no_faults ''r1'' ?u store0)) = 200"
    by (simp add: delete_reminders_status f nf)
  note T = successful_mutation_issues_one_log_append
             [of no_faults ?u ?t Undefined ?d store0 "''r1''" "JBool True"]
  from T h1 have c1: "\<exists>entry.
          logs (snd (post_reminders no_faults ?u ?t Undefined ?d store0))
            = logs store0 @ [resolve (now no_faults) entry]
        \<and> resolve (now no_faults) entry ''action'' = Some (JStr ''CREATE'')
        \<and> resolve (now no_faults) entry ''entityId'' = Some (JStr ''r2'')"
    by (cases "post_reminders no_faults ?u ?t Undefined ?d store0") (auto simp: f)
  from T h2 have c2: "\<exists>entry.
          logs (snd (put_reminders no_faults ''r1'' ?u ?t Undefined ?d (JBool True) store0))
            = logs store0 @ [resolve (now no_faults) entry]
        \<and> resolve (now no_faults) entry ''action'' = Some (JStr ''UPDATE'')
        \<and> resolve (now no_faults) entry ''entityId'' = Some (JStr ''r1'')"
    by (cases "put_reminders no_faults ''r1'' ?u ?t Undefined ?d (JBool True) store0")
       (auto simp: f)
  from T h3 have c3: "\<exists>entry.
          calls (snd (delete_reminders no_faults ''r1'' ?u store0))
            = calls store0 @ [RemindersDocGet ''r1'', UsersDocGet ?u, LogsAddCall entry,
                              RemindersDocDelete ''r1'']
        \<and> logs (snd (delete_reminders no_faults ''r1'' ?u store0))
            = logs store0 @ [resolve (now no_faults) entry]
        \<and> resolve (now no_faults) entry ''action'' = Some (JStr ''DELETE'')
        \<and> resolve (now no_faults) entry ''details'' = Some (JObj [''data'' \<mapsto> JObj aspirin])"
    by (cases "delete_reminders no_faults ''r1'' ?u store0") (auto simp: f r1)
  from h1 c1 h2 c2 h3 c3 show ?thesis by blast
qed

subsection \<open>C2: the outcome for a reminder that is missing or owned by someone else\<close>

lemma differs_not_strict_eq: "a \<noteq> b \<Longrightarrow> \<not> strict_eq a b"
  by (simp add: strict_eq_def)

lemma put_reminders_not_found:
  assumes "truthy userId" "faults e RemindersGet = None"
    and "not_found_or_unauthorized (map_of (reminders s) reminderId) userId"
  shows "put_reminders e reminderId userId title description datetime completed s =
           (Response 404 (ErrorBody ''Reminder not found or unauthorized''),
            s\<lparr>calls := calls s @ [RemindersDocGet reminderId]\<rparr>)"
  using assms unfolding put_reminders_def reminders_doc_get_def issue_def
  by (simp add: Let_def)

lemma delete_reminders_not_found:
  assumes "truthy userId" "faults e RemindersGet = None"
    and "not_found_or_unauthorized (map_of (reminders s) reminderId) userId"
  shows "delete_reminders e reminderId userId s =
           (Response 404 (ErrorBody ''Reminder not found or unauthorized''),
            s\<lparr>calls := calls s @ [RemindersDocGet reminderId]\<rparr>)"
  using assms unfolding delete_reminders_def reminders_doc_get_def issue_def
  by (simp add: Let_def)

text \<open>
  C2, as amended. In the Firestore service, for an update or a delete with a truthy \<open>userId\<close>
  whose lookup returns: when no reminder has the given id, or one has and its stored \<open>userId\<close>
  differs from the supplied one, the answer is 404 \<open>Reminder not found or unauthorized\<close> in both
  cases, and the handler has issued the lookup and nothing else, so no collection is written. In
  the in-memory service the answer depends on the bucket of the supplied \<open>userId\<close> instead: an
  update or a delete for a \<open>userId\<close> whose key has no bucket (and is not a name the store object
  inherits) answers 404 \<open>User not found\<close>, an update for a bucket without a reminder of that id
  answers 404 \<open>Reminder not found\<close>, and the store is unchanged.
\<close>

theorem not_found_or_unauthorized_outcome:
  "(truthy userId \<and> faults e RemindersGet = None
    \<and> (map_of (reminders s) reminderId = None
       \<or> (\<exists>d. map_of (reminders s) reminderId = Some d \<and> field d ''userId'' \<noteq> userId)) \<longrightarrow>
      put_reminders e reminderId userId title description datetime completed s =
        (Response 404 (ErrorBody ''Reminder not found or unauthorized''),
         s\<lparr>calls := calls s @ [RemindersDocGet reminderId]\<rparr>)
    \<and> delete_reminders e reminderId userId s =
        (Response 404 (ErrorBody ''Reminder not found or unauthorized''),
         s\<lparr>calls := calls s @ [RemindersDocGet reminderId]\<rparr>))
 \<and> (truthy userId \<and> prop_key number_to_string userId = Inr key
    \<and> m key = None \<and> key \<notin> set object_prototype_names \<longrightarrow>
      mem_put_reminders number_to_string reminderId userId title description datetime completed m =
        (Response 404 (ErrorBody ''User not found''), m)
    \<and> mem_delete_reminders number_to_string reminderId userId m =
        (Response 404 (ErrorBody ''User not found''), m))
 \<and> (truthy userId \<and> prop_key number_to_string userId = Inr key
    \<and> m key = Some rs \<and> find (has_id reminderId) rs = None \<longrightarrow>
      mem_put_reminders number_to_string reminderId userId title description datetime completed m =
        (Response 404 (ErrorBody ''Reminder not found''), m))"
proof (intro conjI impI)
  assume a: "truthy userId \<and> faults e RemindersGet = None
    \<and> (map_of (reminders s) reminderId = None
       \<or> (\<exists>d. map_of (reminders s) reminderId = Some d \<and> field d ''userId'' \<noteq> userId))"
  then have nf: "not_found_or_unauthorized (map_of (reminders s) reminderId) userId"
    by (auto simp: not_found_or_unauthorized_def differs_not_strict_eq)
  from a nf show "put_reminders e reminderId userId title description datetime completed s =
        (Response 404 (ErrorBody ''Reminder not found or unauthorized''),
         s\<lparr>calls := calls s @ [RemindersDocGet reminderId]\<rparr>)"
    by (simp add: put_reminders_not_found)
  from a nf show "delete_reminders e reminderId userId s =
        (Response 404 (ErrorBody ''Reminder not found or unauthorized''),
         s\<lparr>calls := calls s @ [RemindersDocGet reminderId]\<rparr>)"
    by (simp add: delete_reminders_not_found)
next
  assume a: "truthy userId \<and> prop_key number_to_string userId = Inr key
    \<and> m key = None \<and> key \<notin> set object_prototype_names"
  then show "mem_put_reminders number_to_string reminderId userId title description datetime
               completed m =
        (Response 404 (ErrorBody ''User not found''), m)"
    by (simp add: mem_put_reminders_def get_slot_def)
  from a show "mem_delete_reminders number_to_string reminderId userId m =
        (Response 404 (ErrorBody ''User not found''), m)"
    by (simp add: mem_delete_reminders_def get_slot_def)
next
  assume "truthy userId \<and> prop_key number_to_string userId = Inr key
    \<and> m key = Some rs \<and> find (has_id reminderId) rs = None"
  then show "mem_put_reminders number_to_string reminderId userId title description datetime
               completed m =
        (Response 404 (ErrorBody ''Reminder not found''), m)"
    by (simp add: mem_put_reminders_def get_slot_def)
qed

text \<open>
  The claim as written fails on the in-memory service. In \<open>mem0\<close> reminder \<open>r9\<close> does not exist
  and \<open>r1\<close> belongs to \<open>u1\<close>: the update of \<open>r9\<close> by \<open>u1\<close> and the update of \<open>r1\<close> by \<open>u2\<close>
  get different messages, and the delete of \<open>r9\<close> by \<open>u1\<close> succeeds.
\<close>

theorem mem_not_found_outcomes_differ:
  "mem_put_reminders decimal_string ''r9'' (JStr ''u1'') Undefined Undefined Undefined (JBool True)
     mem0 =
     (Response 404 (ErrorBody ''Reminder not found''), mem0)
 \<and> mem_put_reminders decimal_string ''r1'' (JStr ''u2'') Undefined Undefined Undefined (JBool True)
     mem0 =
     (Response 404 (ErrorBody ''User not found''), mem0)
 \<and> mem_delete_reminders decimal_string ''r9'' (JStr ''u1'') mem0 =
     (Response 200 (MessageBody ''Reminder deleted successfully''), mem0)"
proof -
  have id9: "\<not> has_id ''r9'' mem_aspirin"
    by (simp add: has_id_def strict_eq_def field_def mem_aspirin_def)
  have same: "mem0(''u1'' \<mapsto> [mem_aspirin]) = mem0"
    by (simp add: mem0_def)
  have slot1: "get_slot mem0 ''u1'' = Bucket [mem_aspirin]"
    and slot2: "get_slot mem0 ''u2'' = Missing"
    by (simp_all add: get_slot_def mem0_def object_prototype_names_def)
  have one: "mem_put_reminders decimal_string ''r9'' (JStr ''u1'') Undefined Undefined Undefined
               (JBool True) mem0 =
     (Response 404 (ErrorBody ''Reminder not found''), mem0)"
    by (simp add: mem_put_reminders_def prop_key_def slot1 id9)
  have two: "mem_put_reminders decimal_string ''r1'' (JStr ''u2'') Undefined Undefined Undefined
               (JBool True) mem0 =
     (Response 404 (ErrorBody ''User not found''), mem0)"
    by (simp add: mem_put_reminders_def prop_key_def slot2)
  have three: "mem_delete_reminders decimal_string ''r9'' (JStr ''u1'') mem0 =
     (Response 200 (MessageBody ''Reminder deleted successfully''), mem0)"
    using same by (simp add: mem_delete_reminders_def prop_key_def slot1 id9)
  from one two three show ?thesis by blast
qed

text \<open>
  The amended statement at concrete runs: on \<open>store0\<close>, \<open>r9\<close> is missing and \<open>r1\<close> belongs to
  \<open>u1\<close>, and both get the same answer from the update and from the delete; on \<open>mem0\<close>, user
  \<open>u2\<close> has no bucket and the bucket of \<open>u1\<close> has no \<open>r9\<close>.
\<close>

theorem not_found_or_unauthorized_outcome_witness:
  "put_reminders no_faults ''r9'' (JStr ''u1'') Undefined Undefined Undefined (JBool True) store0 =
     (Response 404 (ErrorBody ''Reminder not found or unauthorized''),
      store0\<lparr>calls := calls store0 @ [RemindersDocGet ''r9'']\<rparr>)
 \<and> delete_reminders no_faults ''r9'' (JStr ''u1'') store0 =
     (Response 404 (ErrorBody ''Reminder not found or unauthorized''),
      store0\<lparr>calls := calls store0 @ [RemindersDocGet ''r9'']\<rparr>)
 \<and> put_reminders no_faults ''r1'' (JStr ''u2'') Undefined Undefined Undefined (JBool True) store0 =
     (Response 404 (ErrorBody ''Reminder not found or unauthorized''),
      store0\<lparr>calls := calls store0 @ [RemindersDocGet ''r1'']\<rparr>)
 \<and> delete_reminders no_faults ''r1'' (JStr ''u2'') store0 =
     (Response 404 (ErrorBody ''Reminder not found or unauthorized''),
      store0\<lparr>calls := calls store0 @ [RemindersDocGet ''r1'']\<rparr>)
 \<and> mem_put_reminders decimal_string ''r1'' (JStr ''u2'') Undefined Undefined Undefined (JBool True)
      mem0 =
     (Response 404 (ErrorBody ''User not found''), mem0)
 \<and> mem_delete_reminders decimal_string ''r1'' (JStr ''u2'') mem0 =
     (Response 404 (ErrorBody ''User not found''), mem0)
 \<and> mem_put_reminders decimal_string ''r9'' (JStr ''u1'') Undefined Undefined Undefined (JBool True)
      mem0 =
     (Response 404 (ErrorBody ''Reminder not found''), mem0)"
proof -
  have f: "faults no_faults RemindersGet = None"
    by (simp add: no_faults_def)
  have missing: "map_of (reminders store0) ''r9'' = None"
    by (simp add: store0_def)
  have other: "\<exists>d. map_of (reminders store0) ''r1'' = Some d \<and> field d ''userId'' \<noteq> JStr ''u2''"
    by (simp add: store0_def aspirin_def field_def)
  have k1: "prop_key decimal_string (JStr ''u1'') = Inr ''u1''"
    and k2: "prop_key decimal_string (JStr ''u2'') = Inr ''u2''"
    by (simp_all add: prop_key_def)
  have no_bucket: "mem0 ''u2'' = None" "''u2'' \<notin> set object_prototype_names"
    by (simp_all add: mem0_def object_prototype_names_def)
  have bucket: "mem0 ''u1'' = Some [mem_aspirin]"
    by (simp add: mem0_def)
  have no_r9: "find (has_id ''r9'') [mem_aspirin] = None"
    by (simp add: has_id_def strict_eq_def field_def mem_aspirin_def)
  note at_r9 = not_found_or_unauthorized_outcome
                 [of "JStr ''u1''" no_faults store0 "''r9''" Undefined Undefined Undefined
                     "JBool True" decimal_string "''u1''" mem0 "[mem_aspirin]"]
  note at_r1 = not_found_or_unauthorized_outcome
                 [of "JStr ''u2''" no_faults store0 "''r1''" Undefined Undefined Undefined
                     "JBool True" decimal_string "''u2''" mem0 "[mem_aspirin]"]
  from at_r9 f missing k1 bucket no_r9 at_r1 other k2 no_bucket show ?thesis
    by simp
qed

subsection \<open>C3: the patch an update applies\<close>

lemma put_updates_fields:
  "put_updates title description datetime completed ''title'' =
     (if truthy title then Some title else None)"
  "put_updates title description datetime completed ''description'' =
     (if description \<noteq> Undefined then Some description else None)"
  "put_updates title description datetime completed ''datetime'' =
     (if truthy datetime then Some datetime else None)"
  "put_updates title description datetime completed ''completed'' =
     (if completed \<noteq> Undefined then Some completed else None)"
  unfolding put_updates_def by (simp_all add: Let_def)

lemma put_updates_dom:
  "dom (put_updates title description datetime completed)
     \<subseteq> {''title'', ''description'', ''datetime'', ''completed''}"
  unfolding put_updates_def by (auto simp: Let_def split: if_splits)

lemma mem_assign_fields:
  "mem_assign title description datetime completed r ''title'' =
     (if truthy title then Some title else r ''title'')"
  "mem_assign title description datetime completed r ''description'' =
     (if truthy description then Some description else r ''description'')"
  "mem_assign title description datetime completed r ''datetime'' =
     (if truthy datetime then Some datetime else r ''datetime'')"
  "mem_assign title description datetime completed r ''completed'' =
     (if completed \<noteq> Undefined then Some completed else r ''completed'')"
  unfolding mem_assign_def by (simp_all add: Let_def)

lemma mem_assign_other:
  "k \<notin> {''title'', ''description'', ''datetime'', ''completed''} \<Longrightarrow>
   mem_assign title description datetime completed r k = r k"
  unfolding mem_assign_def by (simp add: Let_def)

lemma map_of_updated:
  "map_of (map (\<lambda>(k, d). if k = reminderId then (k, f d) else (k, d)) ds) reminderId
     = map_option f (map_of ds reminderId)"
  by (induction ds) auto

text \<open>
  C3, as amended. In the Firestore service, an authorised update whose lookup and update return
  applies a patch with exactly these fields: \<open>title\<close> and \<open>datetime\<close> when the supplied value is
  truthy (an empty string is dropped), \<open>description\<close> and \<open>completed\<close> when the supplied value is
  not \<open>undefined\<close> (so \<open>false\<close> and \<open>''\<close> apply), and no other field. The stored document becomes
  the old one merged with the patch, a field the patch does not have keeps its stored value, and
  the reminder returned is the id, the old document and the patch merged. In the in-memory
  service \<open>description\<close> is applied only when truthy, like \<open>title\<close> and \<open>datetime\<close>, and
  \<open>completed\<close> when not \<open>undefined\<close>; every other field of the reminder keeps its value, and the
  reminder returned is the stored one after the assignments.
\<close>

theorem update_applies_supplied_fields:
  "(truthy userId \<and> faults e RemindersGet = None \<and> faults e RemindersUpdate = None
    \<and> map_of (reminders s) reminderId = Some old \<and> strict_eq (field old ''userId'') userId \<longrightarrow>
      (\<exists>patch s'.
          put_reminders e reminderId userId title description datetime completed s =
            (Response 200
               (ReminderBody ''Reminder updated successfully''
                  ([''reminderId'' \<mapsto> JStr reminderId] ++ old ++ patch)),
             s')
        \<and> patch ''title'' = (if truthy title then Some title else None)
        \<and> patch ''description'' = (if description \<noteq> Undefined then Some description else None)
        \<and> patch ''datetime'' = (if truthy datetime then Some datetime else None)
        \<and> patch ''completed'' = (if completed \<noteq> Undefined then Some completed else None)
        \<and> dom patch \<subseteq> {''title'', ''description'', ''datetime'', ''completed''}
        \<and> map_of (reminders s') reminderId = Some (old ++ patch)
        \<and> (\<forall>k. patch k = None \<longrightarrow> (old ++ patch) k = old k)))
 \<and> (truthy userId \<and> prop_key number_to_string userId = Inr key \<and> m key = Some rs
    \<and> find (has_id reminderId) rs = Some reminder \<longrightarrow>
      (\<exists>updated.
          mem_put_reminders number_to_string reminderId userId title description datetime
            completed m =
            (Response 200 (ReminderBody ''Reminder updated successfully'' updated),
             m(key \<mapsto>
                 update_first (has_id reminderId)
                   (mem_assign title description datetime completed) rs))
        \<and> updated = mem_assign title description datetime completed reminder
        \<and> updated ''title'' = (if truthy title then Some title else reminder ''title'')
        \<and> updated ''description'' =
            (if truthy description then Some description else reminder ''description'')
        \<and> updated ''datetime'' = (if truthy datetime then Some datetime else reminder ''datetime'')
        \<and> updated ''completed'' =
            (if completed \<noteq> Undefined then Some completed else reminder ''completed'')
        \<and> (\<forall>k. k \<notin> {''title'', ''description'', ''datetime'', ''completed''} \<longrightarrow>
              updated k = reminder k)))"
proof (intro conjI impI)
  assume a: "truthy userId \<and> faults e RemindersGet = None \<and> faults e RemindersUpdate = None
    \<and> map_of (reminders s) reminderId = Some old \<and> strict_eq (field old ''userId'') userId"
  let ?patch = "put_updates title description datetime completed"
  let ?run = "put_reminders e reminderId userId title description datetime completed s"
  from a have ok: "truthy userId" "faults e RemindersGet = None"
      "map_of (reminders s) reminderId = Some old" "strict_eq (field old ''userId'') userId"
      "faults e RemindersUpdate = None"
    by simp_all
  note run = put_reminders_ok [OF ok, of title description datetime completed]
  have resp: "?run =
      (Response 200
         (ReminderBody ''Reminder updated successfully''
            ([''reminderId'' \<mapsto> JStr reminderId] ++ old ++ ?patch)),
       snd ?run)"
    by (simp add: run)
  have stored: "map_of (reminders (snd ?run)) reminderId = Some (old ++ ?patch)"
    by (simp add: run logChange_frame map_of_updated ok(3))
  have frame: "\<forall>k. ?patch k = None \<longrightarrow> (old ++ ?patch) k = old k"
    by (simp add: map_add_def)
  from resp put_updates_fields [of title description datetime completed]
    put_updates_dom [of title description datetime completed] stored frame
  show "\<exists>patch s'.
          put_reminders e reminderId userId title description datetime completed s =
            (Response 200
               (ReminderBody ''Reminder updated successfully''
                  ([''reminderId'' \<mapsto> JStr reminderId] ++ old ++ patch)),
             s')
        \<and> patch ''title'' = (if truthy title then Some title else None)
        \<and> patch ''description'' = (if description \<noteq> Undefined then Some description else None)
        \<and> patch ''datetime'' = (if truthy datetime then Some datetime else None)
        \<and> patch ''completed'' = (if completed \<noteq> Undefined then Some completed else None)
        \<and> dom patch \<subseteq> {''title'', ''description'', ''datetime'', ''completed''}
        \<and> map_of (reminders s') reminderId = Some (old ++ patch)
        \<and> (\<forall>k. patch k = None \<longrightarrow> (old ++ patch) k = old k)"
    by (intro exI [of _ ?patch] exI [of _ "snd ?run"] conjI)
next
  assume a: "truthy userId \<and> prop_key number_to_string userId = Inr key \<and> m key = Some rs
    \<and> find (has_id reminderId) rs = Some reminder"
  let ?updated = "mem_assign title description datetime completed reminder"
  from a have resp:
    "mem_put_reminders number_to_string reminderId userId title description datetime completed m =
       (Response 200 (ReminderBody ''Reminder updated successfully'' ?updated),
        m(key \<mapsto>
            update_first (has_id reminderId)
              (mem_assign title description datetime completed) rs))"
    by (simp add: mem_put_reminders_def get_slot_def)
  have other: "\<forall>k. k \<notin> {''title'', ''description'', ''datetime'', ''completed''} \<longrightarrow>
              ?updated k = reminder k"
    using mem_assign_other by blast
  from resp refl [of ?updated] mem_assign_fields [of title description datetime completed reminder]
    other
  show "\<exists>updated.
          mem_put_reminders number_to_string reminderId userId title description datetime
            completed m =
            (Response 200 (ReminderBody ''Reminder updated successfully'' updated),
             m(key \<mapsto>
                 update_first (has_id reminderId)
                   (mem_assign title description datetime completed) rs))
        \<and> updated = mem_assign title description datetime completed reminder
        \<and> updated ''title'' = (if truthy title then Some title else reminder ''title'')
        \<and> updated ''description'' =
            (if truthy description then Some description else reminder ''description'')
        \<and> updated ''datetime'' = (if truthy datetime then Some datetime else reminder ''datetime'')
        \<and> updated ''completed'' =
            (if completed \<noteq> Undefined then Some completed else reminder ''completed'')
        \<and> (\<forall>k. k \<notin> {''title'', ''description'', ''datetime'', ''completed''} \<longrightarrow>
              updated k = reminder k)"
    by (intro exI [of _ ?updated] conjI)
qed

text \<open>
  The claim as written fails on the in-memory service: an update of \<open>r1\<close> with
  \<open>description = ''\<close> is dropped, and the reminder keeps its description.
\<close>

theorem mem_update_drops_empty_description:
  "mem_put_reminders decimal_string ''r1'' (JStr ''u1'') Undefined (JStr []) Undefined Undefined
     mem0 =
     (Response 200 (ReminderBody ''Reminder updated successfully'' mem_aspirin), mem0)
 \<and> mem_aspirin ''description'' = Some (JStr ''with food'')"
proof -
  have id1: "has_id ''r1'' mem_aspirin"
    by (simp add: has_id_def strict_eq_def field_def mem_aspirin_def)
  have same: "mem_assign Undefined (JStr []) Undefined Undefined mem_aspirin = mem_aspirin"
    by (simp add: mem_assign_def)
  have store: "mem0(''u1'' \<mapsto> [mem_aspirin]) = mem0"
    by (simp add: mem0_def)
  have slot: "get_slot mem0 ''u1'' = Bucket [mem_aspirin]"
    by (simp add: get_slot_def mem0_def)
  have "mem_put_reminders decimal_string ''r1'' (JStr ''u1'') Undefined (JStr []) Undefined
          Undefined mem0 =
     (Response 200 (ReminderBody ''Reminder updated successfully'' mem_aspirin), mem0)"
    using store by (simp add: mem_put_reminders_def prop_key_def slot id1 same)
  moreover have "mem_aspirin ''description'' = Some (JStr ''with food'')"
    by (simp add: mem_aspirin_def)
  ultimately show ?thesis by (rule conjI)
qed

text \<open>
  The amended statement at concrete runs: \<open>u1\<close> updates \<open>r1\<close> with \<open>description = ''\<close> and
  \<open>completed = true\<close> and nothing else. On \<open>store0\<close> both are applied; on \<open>mem0\<close> only
  \<open>completed\<close> is.
\<close>

theorem update_applies_supplied_fields_witness:
  "(\<exists>patch s'.
      put_reminders no_faults ''r1'' (JStr ''u1'') Undefined (JStr []) Undefined (JBool True) store0 =
        (Response 200
           (ReminderBody ''Reminder updated successfully''
              ([''reminderId'' \<mapsto> JStr ''r1''] ++ aspirin ++ patch)),
         s')
    \<and> patch ''title'' = None
    \<and> patch ''description'' = Some (JStr [])
    \<and> patch ''datetime'' = None
    \<and> patch ''completed'' = Some (JBool True)
    \<and> map_of (reminders s') ''r1'' = Some (aspirin ++ patch)
    \<and> (aspirin ++ patch) ''title'' = aspirin ''title'')
 \<and> (\<exists>updated.
      mem_put_reminders decimal_string ''r1'' (JStr ''u1'') Undefined (JStr []) Undefined
        (JBool True) mem0 =
        (Response 200 (ReminderBody ''Reminder updated successfully'' updated),
         mem0(''u1'' \<mapsto>
             update_first (has_id ''r1'')
               (mem_assign Undefined (JStr []) Undefined (JBool True)) [mem_aspirin]))
    \<and> updated ''title'' = Some (JStr ''Take aspirin'')
    \<and> updated ''description'' = Some (JStr ''with food'')
    \<and> updated ''completed'' = Some (JBool True))"
proof -
  have f: "faults no_faults RemindersGet = None" "faults no_faults RemindersUpdate = None"
    by (simp_all add: no_faults_def)
  have r1: "map_of (reminders store0) ''r1'' = Some aspirin"
    by (simp add: store0_def)
  have bucket: "prop_key decimal_string (JStr ''u1'') = Inr ''u1''"
    "mem0 ''u1'' = Some [mem_aspirin]"
    by (simp_all add: prop_key_def mem0_def)
  have found: "find (has_id ''r1'') [mem_aspirin] = Some mem_aspirin"
    by (simp add: has_id_def strict_eq_def field_def mem_aspirin_def)
  have old: "mem_aspirin ''title'' = Some (JStr ''Take aspirin'')"
    "mem_aspirin ''description'' = Some (JStr ''with food'')"
    by (simp_all add: mem_aspirin_def)
  note T = update_applies_supplied_fields
             [of "JStr ''u1''" no_faults store0 "''r1''" aspirin Undefined "JStr []" Undefined
                 "JBool True" decimal_string "''u1''" mem0 "[mem_aspirin]" mem_aspirin]
  from T [THEN conjunct1] f r1 store0_owner
  have one: "\<exists>patch s'.
      put_reminders no_faults ''r1'' (JStr ''u1'') Undefined (JStr []) Undefined (JBool True) store0 =
        (Response 200
           (ReminderBody ''Reminder updated successfully''
              ([''reminderId'' \<mapsto> JStr ''r1''] ++ aspirin ++ patch)),
         s')
    \<and> patch ''title'' = None
    \<and> patch ''description'' = Some (JStr [])
    \<and> patch ''datetime'' = None
    \<and> patch ''completed'' = Some (JBool True)
    \<and> map_of (reminders s') ''r1'' = Some (aspirin ++ patch)
    \<and> (aspirin ++ patch) ''title'' = aspirin ''title''"
    by simp blast
  from T [THEN conjunct2] bucket found old
  have two: "\<exists>updated.
      mem_put_reminders decimal_string ''r1'' (JStr ''u1'') Undefined (JStr []) Undefined
        (JBool True) mem0 =
        (Response 200 (ReminderBody ''Reminder updated successfully'' updated),
         mem0(''u1'' \<mapsto>
             update_first (has_id ''r1'')
               (mem_assign Undefined (JStr []) Undefined (JBool True)) [mem_aspirin]))
    \<and> updated ''title'' = Some (JStr ''Take aspirin'')
    \<and> updated ''description'' = Some (JStr ''with food'')
    \<and> updated ''completed'' = Some (JBool True)"
    by simp
  from one two show ?thesis by (rule conjI)
qed

subsection \<open>C4: the reminder a create returns\<close>

lemma mem_post_reminders_fst:
  assumes "truthy userId" "truthy title" "truthy datetime"
    and "prop_key number_to_string userId = Inr key"
    and "m key \<noteq> None \<or> key \<notin> set object_prototype_names"
  shows "fst (mem_post_reminders number_to_string uuidv4 userId title description datetime m) =
     Response 201
       (ReminderBody ''Reminder created successfully''
          [''reminderId'' \<mapsto> JStr uuidv4,
           ''userId'' \<mapsto> userId,
           ''title'' \<mapsto> title,
           ''description'' \<mapsto> description,
           ''datetime'' \<mapsto> datetime,
           ''completed'' \<mapsto> JBool False])"
proof (cases "get_slot m key")
  case Missing
  with assms show ?thesis
    by (simp add: mem_post_reminders_def Let_def)
next
  case (Bucket rs)
  with assms show ?thesis
    by (simp add: mem_post_reminders_def Let_def)
next
  case Inherited
  with assms(5) show ?thesis
    by (auto simp: get_slot_def split: option.splits if_splits)
qed

text \<open>
  C4, as amended. For truthy \<open>userId\<close>, \<open>title\<close> and \<open>datetime\<close>: the create of the Firestore
  service, when the insert returns, answers 201 with a reminder that has \<open>completed = false\<close>,
  the generated id as \<open>reminderId\<close>, and as \<open>description\<close> the supplied one when it is truthy
  and \<open>''\<close> otherwise; so a supplied string is kept and an omitted description becomes \<open>''\<close>. The
  create of the in-memory service, for a \<open>userId\<close> whose key has a bucket or is not a name the
  store object inherits, answers 201 with \<open>completed = false\<close>, the generated id, and the
  description as supplied: \<open>undefined\<close> when it was omitted.
\<close>

theorem created_reminder_fields:
  "(truthy userId \<and> truthy title \<and> truthy datetime \<and> faults e RemindersAdd = None \<longrightarrow>
      (\<exists>r s'. post_reminders e userId title description datetime s =
                 (Response 201 (ReminderBody ''Reminder created successfully'' r), s')
             \<and> r ''completed'' = Some (JBool False)
             \<and> r ''reminderId'' = Some (JStr (auto_id e))
             \<and> r ''description'' = Some (if truthy description then description else JStr [])
             \<and> (description = Undefined \<longrightarrow> r ''description'' = Some (JStr []))
             \<and> (\<forall>d. description = JStr d \<longrightarrow> r ''description'' = Some (JStr d))))
 \<and> (truthy userId \<and> truthy title \<and> truthy datetime
    \<and> prop_key number_to_string userId = Inr key
    \<and> (m key \<noteq> None \<or> key \<notin> set object_prototype_names) \<longrightarrow>
      (\<exists>r m'. mem_post_reminders number_to_string uuidv4 userId title description datetime m =
                 (Response 201 (ReminderBody ''Reminder created successfully'' r), m')
             \<and> r ''completed'' = Some (JBool False)
             \<and> r ''reminderId'' = Some (JStr uuidv4)
             \<and> r ''description'' = Some description))"
proof (intro conjI impI)
  assume a: "truthy userId \<and> truthy title \<and> truthy datetime \<and> faults e RemindersAdd = None"
  let ?r = "[''reminderId'' \<mapsto> JStr (auto_id e)] ++ reminder_data userId title description datetime"
  have fields: "?r ''completed'' = Some (JBool False)" "?r ''reminderId'' = Some (JStr (auto_id e))"
    "?r ''description'' = Some (if truthy description then description else JStr [])"
    by (simp_all add: reminder_data_def js_or_def map_add_def)
  have "description = Undefined \<longrightarrow> ?r ''description'' = Some (JStr [])"
    and "\<forall>d. description = JStr d \<longrightarrow> ?r ''description'' = Some (JStr d)"
    using fields(3) by auto
  moreover from a have "fst (post_reminders e userId title description datetime s) =
      Response 201 (ReminderBody ''Reminder created successfully'' ?r)"
    by (simp add: post_reminders_ok)
  then obtain s' where "post_reminders e userId title description datetime s =
      (Response 201 (ReminderBody ''Reminder created successfully'' ?r), s')"
    by (cases "post_reminders e userId title description datetime s") simp
  moreover note fields
  ultimately show "\<exists>r s'. post_reminders e userId title description datetime s =
                 (Response 201 (ReminderBody ''Reminder created successfully'' r), s')
             \<and> r ''completed'' = Some (JBool False)
             \<and> r ''reminderId'' = Some (JStr (auto_id e))
             \<and> r ''description'' = Some (if truthy description then description else JStr [])
             \<and> (description = Undefined \<longrightarrow> r ''description'' = Some (JStr []))
             \<and> (\<forall>d. description = JStr d \<longrightarrow> r ''description'' = Some (JStr d))"
    by (intro exI [of _ ?r] exI [of _ s'] conjI)
next
  assume a: "truthy userId \<and> truthy title \<and> truthy datetime
    \<and> prop_key number_to_string userId = Inr key
    \<and> (m key \<noteq> None \<or> key \<notin> set object_prototype_names)"
  let ?r = "[''reminderId'' \<mapsto> JStr uuidv4, ''userId'' \<mapsto> userId, ''title'' \<mapsto> title,
            ''description'' \<mapsto> description, ''datetime'' \<mapsto> datetime,
            ''completed'' \<mapsto> JBool False]"
  let ?run = "mem_post_reminders number_to_string uuidv4 userId title description datetime m"
  from a have "fst ?run = Response 201 (ReminderBody ''Reminder created successfully'' ?r)"
    by (simp add: mem_post_reminders_fst)
  then have "?run = (Response 201 (ReminderBody ''Reminder created successfully'' ?r), snd ?run)"
    by (cases ?run) simp
  moreover have "?r ''completed'' = Some (JBool False)" "?r ''reminderId'' = Some (JStr uuidv4)"
    "?r ''description'' = Some description"
    by simp_all
  ultimately
  show "\<exists>r m'. mem_post_reminders number_to_string uuidv4 userId title description datetime m =
                 (Response 201 (ReminderBody ''Reminder created successfully'' r), m')
             \<and> r ''completed'' = Some (JBool False)
             \<and> r ''reminderId'' = Some (JStr uuidv4)
             \<and> r ''description'' = Some description"
    by (intro exI [of _ ?r] exI [of _ "snd ?run"] conjI)
qed

text \<open>
  The claim as written fails on the in-memory service: a create without a description answers
  with a reminder whose description is \<open>undefined\<close>, not the empty string.
\<close>

theorem mem_create_keeps_description_undefined:
  "\<exists>r m'. mem_post_reminders decimal_string ''r2'' (JStr ''u1'') (JStr ''Take aspirin'') Undefined
             (JStr ''2024-01-01T08:00:00Z'') mem0 =
             (Response 201 (ReminderBody ''Reminder created successfully'' r), m')
         \<and> field r ''description'' = Undefined
         \<and> field r ''description'' \<noteq> JStr []"
  by (simp add: mem_post_reminders_def prop_key_def get_slot_def mem0_def Let_def field_def)

text \<open>
  The amended statement at concrete runs: a create without a description on \<open>store0\<close> and on
  \<open>mem0\<close>, and a create with one on \<open>store0\<close>.
\<close>

theorem created_reminder_fields_witness:
  "(\<exists>r s'. post_reminders no_faults (JStr ''u1'') (JStr ''Take aspirin'') Undefined
              (JStr ''2024-01-01T08:00:00Z'') store0 =
              (Response 201 (ReminderBody ''Reminder created successfully'' r), s')
          \<and> r ''completed'' = Some (JBool False)
          \<and> r ''reminderId'' = Some (JStr ''r2'')
          \<and> r ''description'' = Some (JStr []))
 \<and> (\<exists>r m'. mem_post_reminders decimal_string ''r2'' (JStr ''u1'') (JStr ''Take aspirin'') Undefined
              (JStr ''2024-01-01T08:00:00Z'') mem0 =
              (Response 201 (ReminderBody ''Reminder created successfully'' r), m')
          \<and> r ''completed'' = Some (JBool False)
          \<and> r ''reminderId'' = Some (JStr ''r2'')
          \<and> r ''description'' = Some Undefined)
 \<and> (\<exists>r s'. post_reminders no_faults (JStr ''u1'') (JStr ''Take aspirin'') (JStr ''with food'')
              (JStr ''2024-01-01T08:00:00Z'') store0 =
              (Response 201 (ReminderBody ''Reminder created successfully'' r), s')
          \<and> r ''description'' = Some (JStr ''with food''))"
proof -
  have f: "faults no_faults RemindersAdd = None" "auto_id no_faults = ''r2''"
    by (simp_all add: no_faults_def)
  note T = created_reminder_fields
             [of "JStr ''u1''" "JStr ''Take aspirin''" "JStr ''2024-01-01T08:00:00Z''" no_faults
                 Undefined store0 decimal_string "''u1''" mem0 "''r2''"]
  have k: "prop_key decimal_string (JStr ''u1'') = Inr ''u1''" "mem0 ''u1'' \<noteq> None"
    by (simp_all add: prop_key_def mem0_def)
  from T [THEN conjunct1] f
  have one: "\<exists>r s'. post_reminders no_faults (JStr ''u1'') (JStr ''Take aspirin'') Undefined
              (JStr ''2024-01-01T08:00:00Z'') store0 =
              (Response 201 (ReminderBody ''Reminder created successfully'' r), s')
          \<and> r ''completed'' = Some (JBool False)
          \<and> r ''reminderId'' = Some (JStr ''r2'')
          \<and> r ''description'' = Some (JStr [])"
    by simp
  from T [THEN conjunct2] k
  have two: "\<exists>r m'. mem_post_reminders decimal_string ''r2'' (JStr ''u1'') (JStr ''Take aspirin'') Undefined
              (JStr ''2024-01-01T08:00:00Z'') mem0 =
              (Response 201 (ReminderBody ''Reminder created successfully'' r), m')
          \<and> r ''completed'' = Some (JBool False)
          \<and> r ''reminderId'' = Some (JStr ''r2'')
          \<and> r ''description'' = Some Undefined"
    by simp
  from created_reminder_fields
         [of "JStr ''u1''" "JStr ''Take aspirin''" "JStr ''2024-01-01T08:00:00Z''" no_faults
             "JStr ''with food''" store0 decimal_string "''u1''" mem0 "''r2''", THEN conjunct1] f
  have three: "\<exists>r s'. post_reminders no_faults (JStr ''u1'') (JStr ''Take aspirin'')
              (JStr ''with food'') (JStr ''2024-01-01T08:00:00Z'') store0 =
              (Response 201 (ReminderBody ''Reminder created successfully'' r), s')
          \<and> r ''description'' = Some (JStr ''with food'')"
    by auto
  from one two three show ?thesis by (intro conjI)
qed

subsection \<open>C5: create rejects a missing or empty required field\<close>

lemma post_reminders_falsy:
  "\<not> truthy userId \<or> \<not> truthy title \<or> \<not> truthy datetime \<Longrightarrow>
   post_reminders e userId title description datetime s =
     (Response 400 (ErrorBody ''User ID, title, and datetime are required''), s)"
  unfolding post_reminders_def by simp

lemma mem_post_reminders_falsy:
  "\<not> truthy userId \<or> \<not> truthy title \<or> \<not> truthy datetime \<Longrightarrow>
   mem_post_reminders number_to_string uuidv4 userId title description datetime m =
     (Response 400 (ErrorBody ''User ID, title, and datetime are required''), m)"
  unfolding mem_post_reminders_def by simp

text \<open>
  C5. When \<open>userId\<close>, \<open>title\<close> or \<open>datetime\<close> is absent (\<open>undefined\<close>) or the empty string, the
  create handler of the Firestore service and the one of the in-memory service answer 400 with
  the validation message and return the store as it was: no reminder is written, no log entry is
  appended, and no store call is issued at all. (The handlers test truthiness, so the same holds
  for any falsy value.)
\<close>

theorem create_rejects_missing_field:
  assumes "userId = Undefined \<or> userId = JStr []
         \<or> title = Undefined \<or> title = JStr []
         \<or> datetime = Undefined \<or> datetime = JStr []"
  shows "post_reminders e userId title description datetime s =
           (Response 400 (ErrorBody ''User ID, title, and datetime are required''), s)
       \<and> mem_post_reminders number_to_string uuidv4 userId title description datetime m =
           (Response 400 (ErrorBody ''User ID, title, and datetime are required''), m)"
proof -
  from assms have "\<not> truthy userId \<or> \<not> truthy title \<or> \<not> truthy datetime"
    by auto
  then show ?thesis
    by (simp only: post_reminders_falsy mem_post_reminders_falsy)
qed

text \<open>At a concrete run: a create with the empty string as title, on \<open>store0\<close> and on \<open>mem0\<close>.\<close>

theorem create_rejects_missing_field_witness:
  "post_reminders no_faults (JStr ''u1'') (JStr []) (JStr ''with food'')
     (JStr ''2024-01-01T08:00:00Z'') store0 =
     (Response 400 (ErrorBody ''User ID, title, and datetime are required''), store0)
   \<and> mem_post_reminders decimal_string ''r2'' (JStr ''u1'') (JStr []) (JStr ''with food'')
       (JStr ''2024-01-01T08:00:00Z'') mem0 =
     (Response 400 (ErrorBody ''User ID, title, and datetime are required''), mem0)"
  using create_rejects_missing_field
          [of "JStr ''u1''" "JStr []" "JStr ''2024-01-01T08:00:00Z''" no_faults
              "JStr ''with food''" store0 decimal_string "''r2''" mem0]
  by simp

subsection \<open>C6: the reminders of a user\<close>

lemma by_datetime_sorted: "sorted (map (\<lambda>(k, d). order_key (d ''datetime'')) (by_datetime ds))"
  unfolding by_datetime_def by (rule sorted_sort_key)

lemma by_datetime_mset: "mset (by_datetime ds) = mset ds"
  unfolding by_datetime_def by (rule mset_sort)

lemma with_id_keeps_datetime: "with_id ''reminderId'' (k, d) ''datetime'' = d ''datetime''"
  by (simp add: with_id_def map_add_def split: option.splits)

lemma with_id_datetime:
  "map (\<lambda>r. order_key (r ''datetime'')) (map (with_id ''reminderId'') ds)
     = map (\<lambda>(k, d). order_key (d ''datetime'')) ds"
  by (induction ds) (auto simp: with_id_keeps_datetime)

lemma get_reminders_ok:
  assumes "faults e RemindersQuery = None"
  shows "get_reminders e userId s =
     (Response 200
        (RemindersBody userId
           (map (with_id ''reminderId'')
              (by_datetime (filter (\<lambda>(k, d). d ''userId'' = Some (JStr userId)) (reminders s))))),
      s\<lparr>calls := calls s @ [RemindersWhereUserIdEq userId]\<rparr>)"
  using assms unfolding get_reminders_def reminders_where_userId_eq_def issue_def
  by (simp add: Let_def)

text \<open>
  C6, as amended. In the Firestore service, when the query returns, the listing answers 200
  with \<open>{userId, reminders}\<close> where the reminders are exactly the stored documents whose
  \<open>userId\<close> is the given one (each with its id), in non-decreasing order of \<open>datetime\<close>; when
  there is none, the list is empty and the answer is still 200. The handler writes nothing. In
  the in-memory service the listing answers 200 with the bucket of the user as it is stored, in the
  order the reminders were created, and answers 404 \<open>No reminders found for this user\<close> for a
  user without a bucket (whose id is not a name the store object inherits).
\<close>

theorem listing_by_user:
  "(faults e RemindersQuery = None \<longrightarrow>
      (\<exists>docs.
          get_reminders e userId s =
            (Response 200 (RemindersBody userId (map (with_id ''reminderId'') docs)),
             s\<lparr>calls := calls s @ [RemindersWhereUserIdEq userId]\<rparr>)
        \<and> mset docs = mset (filter (\<lambda>(k, d). d ''userId'' = Some (JStr userId)) (reminders s))
        \<and> sorted (map (\<lambda>r. order_key (r ''datetime'')) (map (with_id ''reminderId'') docs))
        \<and> (filter (\<lambda>(k, d). d ''userId'' = Some (JStr userId)) (reminders s) = [] \<longrightarrow>
             docs = [])))
 \<and> (m userId = Some rs \<longrightarrow>
      mem_get_reminders userId m = (Response 200 (RemindersBody userId rs), m))
 \<and> (m userId = None \<and> userId \<notin> set object_prototype_names \<longrightarrow>
      mem_get_reminders userId m =
        (Response 404 (MessageBody ''No reminders found for this user''), m))"
proof (intro conjI impI)
  assume a: "faults e RemindersQuery = None"
  let ?owned = "filter (\<lambda>(k, d). d ''userId'' = Some (JStr userId)) (reminders s)"
  have empty: "?owned = [] \<longrightarrow> by_datetime ?owned = []"
    by (simp add: by_datetime_def)
  have sorted: "sorted (map (\<lambda>r. order_key (r ''datetime''))
                          (map (with_id ''reminderId'') (by_datetime ?owned)))"
    by (simp only: with_id_datetime by_datetime_sorted)
  from get_reminders_ok [OF a, of userId s] by_datetime_mset [of ?owned] sorted empty
  show "\<exists>docs.
          get_reminders e userId s =
            (Response 200 (RemindersBody userId (map (with_id ''reminderId'') docs)),
             s\<lparr>calls := calls s @ [RemindersWhereUserIdEq userId]\<rparr>)
        \<and> mset docs = mset ?owned
        \<and> sorted (map (\<lambda>r. order_key (r ''datetime'')) (map (with_id ''reminderId'') docs))
        \<and> (?owned = [] \<longrightarrow> docs = [])"
    by (intro exI [of _ "by_datetime ?owned"] conjI)
next
  assume "m userId = Some rs"
  then show "mem_get_reminders userId m = (Response 200 (RemindersBody userId rs), m)"
    by (simp add: mem_get_reminders_def get_slot_def)
next
  assume "m userId = None \<and> userId \<notin> set object_prototype_names"
  then show "mem_get_reminders userId m =
        (Response 404 (MessageBody ''No reminders found for this user''), m)"
    by (simp add: mem_get_reminders_def get_slot_def)
qed

text \<open>
  The claim as written fails on the in-memory service: the listing for the unknown user \<open>u9\<close>
  is an error, and the listing for \<open>u1\<close> in \<open>mem2\<close> has the evening reminder before the morning
  one.
\<close>

theorem mem_listing_unknown_user_and_order:
  "mem_get_reminders ''u9'' mem2 =
     (Response 404 (MessageBody ''No reminders found for this user''), mem2)
 \<and> mem_get_reminders ''u1'' mem2 =
     (Response 200 (RemindersBody ''u1'' [mem_evening, mem_aspirin]), mem2)
 \<and> \<not> sorted (map (\<lambda>r. order_key (r ''datetime'')) [mem_evening, mem_aspirin])"
proof -
  have "mem_get_reminders ''u9'' mem2 =
     (Response 404 (MessageBody ''No reminders found for this user''), mem2)"
    by (simp add: mem_get_reminders_def get_slot_def mem2_def object_prototype_names_def)
  moreover have "mem_get_reminders ''u1'' mem2 =
     (Response 200 (RemindersBody ''u1'' [mem_evening, mem_aspirin]), mem2)"
    by (simp add: mem_get_reminders_def get_slot_def mem2_def)
  moreover have "\<not> sorted (map (\<lambda>r. order_key (r ''datetime'')) [mem_evening, mem_aspirin])"
    by (simp add: mem_evening_def mem_aspirin_def less_eq_char_def)
  ultimately show ?thesis by blast
qed

lemma store3_owners:
  "aspirin ''userId'' = Some (JStr ''u1'')" "vitamins ''userId'' = Some (JStr ''u2'')"
  "drops ''userId'' = Some (JStr ''u1'')"
  by (simp_all add: aspirin_def vitamins_def drops_def)

lemma store3_datetimes:
  "aspirin ''datetime'' = Some (JStr ''2024-01-01T08:00:00Z'')"
  "drops ''datetime'' = Some (JStr ''2023-12-31T20:00:00Z'')"
  by (simp_all add: aspirin_def drops_def)

text \<open>The listing for \<open>u1\<close> on \<open>store3\<close>, computed: the reminder of 31 December comes first.\<close>

lemma listing_by_user_example:
  "get_reminders no_faults ''u1'' store3 =
     (Response 200
        (RemindersBody ''u1''
           [with_id ''reminderId'' (''r4'', drops), with_id ''reminderId'' (''r1'', aspirin)]),
      store3\<lparr>calls := calls store3 @ [RemindersWhereUserIdEq ''u1'']\<rparr>)"
proof -
  have f: "faults no_faults RemindersQuery = None"
    by (simp add: no_faults_def)
  have owned: "filter (\<lambda>(k, d). d ''userId'' = Some (JStr ''u1'')) (reminders store3)
                 = [(''r1'', aspirin), (''r4'', drops)]"
    by (simp add: store3_def store3_owners)
  have "by_datetime [(''r1'', aspirin), (''r4'', drops)] = [(''r4'', drops), (''r1'', aspirin)]"
    by (simp add: by_datetime_def store3_datetimes less_eq_char_def)
  with owned show ?thesis
    by (simp add: get_reminders_ok [OF f])
qed

text \<open>
  The amended statement at concrete runs: the listings for \<open>u1\<close> and for the unknown \<open>u9\<close> on
  \<open>store3\<close> and on \<open>mem0\<close>.
\<close>

theorem listing_by_user_witness:
  "(\<exists>docs.
      get_reminders no_faults ''u1'' store3 =
        (Response 200 (RemindersBody ''u1'' (map (with_id ''reminderId'') docs)),
         store3\<lparr>calls := calls store3 @ [RemindersWhereUserIdEq ''u1'']\<rparr>)
    \<and> mset docs = {#(''r1'', aspirin), (''r4'', drops)#}
    \<and> sorted (map (\<lambda>r. order_key (r ''datetime'')) (map (with_id ''reminderId'') docs)))
 \<and> get_reminders no_faults ''u9'' store3 =
      (Response 200 (RemindersBody ''u9'' []),
       store3\<lparr>calls := calls store3 @ [RemindersWhereUserIdEq ''u9'']\<rparr>)
 \<and> mem_get_reminders ''u1'' mem0 = (Response 200 (RemindersBody ''u1'' [mem_aspirin]), mem0)
 \<and> mem_get_reminders ''u9'' mem0 =
      (Response 404 (MessageBody ''No reminders found for this user''), mem0)"
proof -
  have f: "faults no_faults RemindersQuery = None"
    by (simp add: no_faults_def)
  have owned1: "filter (\<lambda>(k, d). d ''userId'' = Some (JStr ''u1'')) (reminders store3)
                 = [(''r1'', aspirin), (''r4'', drops)]"
    by (simp add: store3_def store3_owners)
  have owned9: "filter (\<lambda>(k, d). d ''userId'' = Some (JStr ''u9'')) (reminders store3) = []"
    by (simp add: store3_def store3_owners)
  have bucket: "mem0 ''u1'' = Some [mem_aspirin]"
    and no_bucket: "mem0 ''u9'' = None" "''u9'' \<notin> set object_prototype_names"
    by (simp_all add: mem0_def object_prototype_names_def)
  note at_u1 = listing_by_user [of no_faults "''u1''" store3 mem0 "[mem_aspirin]"]
  note at_u9 = listing_by_user [of no_faults "''u9''" store3 mem0 "[mem_aspirin]"]
  from at_u1 [THEN conjunct1] f owned1
  have one: "\<exists>docs.
      get_reminders no_faults ''u1'' store3 =
        (Response 200 (RemindersBody ''u1'' (map (with_id ''reminderId'') docs)),
         store3\<lparr>calls := calls store3 @ [RemindersWhereUserIdEq ''u1'']\<rparr>)
    \<and> mset docs = {#(''r1'', aspirin), (''r4'', drops)#}
    \<and> sorted (map (\<lambda>r. order_key (r ''datetime'')) (map (with_id ''reminderId'') docs))"
    by (auto simp: add_mset_commute)
  from at_u9 [THEN conjunct1] f owned9
  have two: "get_reminders no_faults ''u9'' store3 =
      (Response 200 (RemindersBody ''u9'' []),
       store3\<lparr>calls := calls store3 @ [RemindersWhereUserIdEq ''u9'']\<rparr>)"
    by auto
  from at_u1 [THEN conjunct2, THEN conjunct1] bucket
  have three: "mem_get_reminders ''u1'' mem0 = (Response 200 (RemindersBody ''u1'' [mem_aspirin]), mem0)"
    by simp
  from at_u9 [THEN conjunct2, THEN conjunct2] no_bucket
  have four: "mem_get_reminders ''u9'' mem0 =
      (Response 404 (MessageBody ''No reminders found for this user''), mem0)"
    by simp
  from one two three four show ?thesis by (intro conjI)
qed

subsection \<open>C7: the organisation listing never queries with an empty membership filter\<close>

lemma in_filter_nonempty: "in_filter patientIds \<noteq> []"
  unfolding in_filter_def by simp

lemma get_api_reminders_all_calls:
  "\<exists>new. calls (snd (get_api_reminders_all e organizationId s)) = calls s @ new
        \<and> RemindersWhereUserIdIn [] \<notin> set new"
  unfolding get_api_reminders_all_def users_where_org_role_def reminders_where_userId_in_def
    issue_def
  by (auto simp: Let_def in_filter_nonempty in_filter_nonempty [THEN not_sym] split: option.splits)

lemma users_where_org_role_snd:
  "snd (users_where_org_role e organizationId role s) = issue (UsersWhereOrgRole organizationId role) s"
  unfolding users_where_org_role_def by (simp add: Let_def split: option.splits)

text \<open>
  C7. When the user query resolves no user with role \<open>user\<close> in the organisation, the listing
  answers with the empty list after that one call: no reminder query is issued. In every run, no
  call the handler issues is a reminder query with an empty membership filter: the filter it
  passes is the id list, or \<open>['none']\<close> where the list would be empty, so the store's error for
  an empty filter is not reached from this handler.
\<close>

theorem listing_by_organization_empty:
  "(fst (users_where_org_role e organizationId ''user'' s) = Inr [] \<longrightarrow>
      get_api_reminders_all e organizationId s =
        (Response 200 (ArrayBody []),
         s\<lparr>calls := calls s @ [UsersWhereOrgRole organizationId ''user'']\<rparr>))
 \<and> (\<exists>new. calls (snd (get_api_reminders_all e organizationId s)) = calls s @ new
          \<and> RemindersWhereUserIdIn [] \<notin> set new)
 \<and> in_filter patientIds \<noteq> []
 \<and> in_filter [] = [''none'']"
proof (intro conjI impI)
  assume a: "fst (users_where_org_role e organizationId ''user'' s) = Inr []"
  obtain r s1 where q: "users_where_org_role e organizationId ''user'' s = (r, s1)"
    by (cases "users_where_org_role e organizationId ''user'' s")
  with a users_where_org_role_snd [of e organizationId "''user''" s]
  have "r = Inr []" and "s1 = s\<lparr>calls := calls s @ [UsersWhereOrgRole organizationId ''user'']\<rparr>"
    by (simp_all add: issue_def)
  with q show "get_api_reminders_all e organizationId s =
        (Response 200 (ArrayBody []),
         s\<lparr>calls := calls s @ [UsersWhereOrgRole organizationId ''user'']\<rparr>)"
    unfolding get_api_reminders_all_def by simp
next
  show "\<exists>new. calls (snd (get_api_reminders_all e organizationId s)) = calls s @ new
          \<and> RemindersWhereUserIdIn [] \<notin> set new"
    by (rule get_api_reminders_all_calls)
next
  show "in_filter patientIds \<noteq> []"
    by (rule in_filter_nonempty)
next
  show "in_filter [] = [''none'']"
    by (simp add: in_filter_def)
qed

text \<open>At a concrete run: organisation \<open>org2\<close> has no user in \<open>store0\<close>.\<close>

theorem listing_by_organization_empty_witness:
  "fst (users_where_org_role no_faults (JStr ''org2'') ''user'' store0) = Inr []
 \<and> get_api_reminders_all no_faults (JStr ''org2'') store0 =
     (Response 200 (ArrayBody []),
      store0\<lparr>calls := calls store0 @ [UsersWhereOrgRole (JStr ''org2'') ''user'']\<rparr>)"
proof -
  have q: "fst (users_where_org_role no_faults (JStr ''org2'') ''user'' store0) = Inr []"
    by (simp add: users_where_org_role_def no_faults_def issue_def store0_def ann_def)
  with listing_by_organization_empty [of no_faults "JStr ''org2''" store0 "[]"]
  show ?thesis by blast
qed

subsection \<open>C8: the audit log never fails the operation\<close>

text \<open>
  What holds of \<^verbatim>\<open>logChange\<close> in every run: it returns normally, so the create, update and
  delete handlers answer with success whenever their own store calls return, whatever the user
  lookup and the append to the logs do. When the lookup throws, the \<open>userId\<close> has a string form
  and the append returns, the entry is appended with \<open>userName = 'Unknown'\<close>.
\<close>

lemma logChange_swallows_failures:
  "fst (logChange e action userId entity entityId entityName details s) = Inr ()
 \<and> (faults e UsersGet \<noteq> None \<and> \<not> to_string_throws userId \<and> faults e LogsAdd = None \<longrightarrow>
      logs (snd (logChange e action userId entity entityId entityName details s)) =
        logs s @ [resolve (now e)
                    (log_entry action userId (JStr ''Unknown'') entity entityId entityName details)])
 \<and> (truthy userId \<and> truthy title \<and> truthy datetime \<and> faults e RemindersAdd = None \<longrightarrow>
      status (fst (post_reminders e userId title description datetime s)) = 201)
 \<and> (truthy userId \<and> faults e RemindersGet = None
      \<and> \<not> not_found_or_unauthorized (map_of (reminders s) reminderId) userId
      \<and> faults e RemindersUpdate = None \<longrightarrow>
      status (fst (put_reminders e reminderId userId title description datetime completed s)) = 200)
 \<and> (truthy userId \<and> faults e RemindersGet = None
      \<and> \<not> not_found_or_unauthorized (map_of (reminders s) reminderId) userId
      \<and> faults e RemindersDelete = None \<longrightarrow>
      status (fst (delete_reminders e reminderId userId s)) = 200)"
proof (intro conjI impI)
  show "fst (logChange e action userId entity entityId entityName details s) = Inr ()"
    by (rule logChange_fst)
next
  assume a: "faults e UsersGet \<noteq> None \<and> \<not> to_string_throws userId \<and> faults e LogsAdd = None"
  then have "resolved_name e userId s = JStr ''Unknown''"
    by (auto simp: resolved_name_def users_doc_get_def user_name_def Let_def)
  with a show "logs (snd (logChange e action userId entity entityId entityName details s)) =
        logs s @ [resolve (now e)
                    (log_entry action userId (JStr ''Unknown'') entity entityId entityName details)]"
    by (simp add: logChange_appends)
next
  assume "truthy userId \<and> truthy title \<and> truthy datetime \<and> faults e RemindersAdd = None"
  then show "status (fst (post_reminders e userId title description datetime s)) = 201"
    by (simp add: post_reminders_status)
next
  assume "truthy userId \<and> faults e RemindersGet = None
      \<and> \<not> not_found_or_unauthorized (map_of (reminders s) reminderId) userId
      \<and> faults e RemindersUpdate = None"
  then show "status (fst (put_reminders e reminderId userId title description datetime completed s))
               = 200"
    by (simp add: put_reminders_status)
next
  assume "truthy userId \<and> faults e RemindersGet = None
      \<and> \<not> not_found_or_unauthorized (map_of (reminders s) reminderId) userId
      \<and> faults e RemindersDelete = None"
  then show "status (fst (delete_reminders e reminderId userId s)) = 200"
    by (simp add: delete_reminders_status)
qed

text \<open>
  C8. The claim is what \<^verbatim>\<open>logChange\<close> is written to do, and the code misses it in one case. A
  create whose \<open>userId\<close> is the JSON object \<^verbatim>\<open>{"toString": 1}\<close> passes the validation; in
  \<^verbatim>\<open>logChange\<close> the lookup of the user throws, the inner \<^verbatim>\<open>catch\<close> throws in its turn when it
  puts \<open>userId\<close> into its message, and the outer \<^verbatim>\<open>catch\<close> ends the function before the
  append. The create answers 201, the only calls issued are the insert and the lookup, and the
  log has no entry, where the claim has one with \<open>userName = 'Unknown'\<close>.
\<close>

theorem failed_lookup_skips_log_entry:
  "truthy odd_user
 \<and> isl (fst (users_doc_get no_faults odd_user store0))
 \<and> logChange no_faults ''CREATE'' odd_user ''Reminder'' ''r2'' (JStr ''Take aspirin'')
      [''data'' \<mapsto> JObj (reminder_data odd_user (JStr ''Take aspirin'') Undefined
                           (JStr ''2024-01-01T08:00:00Z''))] store0
     = (Inr (), store0\<lparr>calls := [UsersDocGet odd_user]\<rparr>)
 \<and> status (fst (post_reminders no_faults odd_user (JStr ''Take aspirin'') Undefined
                   (JStr ''2024-01-01T08:00:00Z'') store0)) = 201
 \<and> calls (snd (post_reminders no_faults odd_user (JStr ''Take aspirin'') Undefined
                  (JStr ''2024-01-01T08:00:00Z'') store0))
     = [RemindersAddCall (reminder_data odd_user (JStr ''Take aspirin'') Undefined
                            (JStr ''2024-01-01T08:00:00Z'')),
        UsersDocGet odd_user]
 \<and> logs (snd (post_reminders no_faults odd_user (JStr ''Take aspirin'') Undefined
                 (JStr ''2024-01-01T08:00:00Z'') store0)) = []"
proof -
  have odd: "truthy odd_user" "to_string_throws odd_user"
    by (simp_all add: odd_user_def)
  have f: "faults no_faults RemindersAdd = None"
    by (simp add: no_faults_def)
  have s0: "calls store0 = []" "logs store0 = []"
    by (simp_all add: store0_def)
  have lookup: "isl (fst (users_doc_get no_faults odd_user store0))"
    using odd(2) by (rule to_string_throws_lookup)
  have log: "logChange no_faults ''CREATE'' odd_user ''Reminder'' ''r2'' (JStr ''Take aspirin'')
      [''data'' \<mapsto> JObj (reminder_data odd_user (JStr ''Take aspirin'') Undefined
                           (JStr ''2024-01-01T08:00:00Z''))] store0
     = (Inr (), store0\<lparr>calls := [UsersDocGet odd_user]\<rparr>)"
    by (simp add: logChange_eq odd s0)
  have run: "post_reminders no_faults odd_user (JStr ''Take aspirin'') Undefined
               (JStr ''2024-01-01T08:00:00Z'') store0 =
     (Response 201
        (ReminderBody ''Reminder created successfully''
           ([''reminderId'' \<mapsto> JStr (auto_id no_faults)]
              ++ reminder_data odd_user (JStr ''Take aspirin'') Undefined
                   (JStr ''2024-01-01T08:00:00Z''))),
      snd (logChange no_faults ''CREATE'' odd_user ''Reminder'' (auto_id no_faults)
             (JStr ''Take aspirin'')
             [''data'' \<mapsto> JObj (reminder_data odd_user (JStr ''Take aspirin'') Undefined
                                  (JStr ''2024-01-01T08:00:00Z''))]
             (store0\<lparr>reminders := reminders store0 @
                   [(auto_id no_faults,
                     resolve (now no_faults)
                       (reminder_data odd_user (JStr ''Take aspirin'') Undefined
                          (JStr ''2024-01-01T08:00:00Z'')))],
                 calls := calls store0 @
                   [RemindersAddCall
                      (reminder_data odd_user (JStr ''Take aspirin'') Undefined
                         (JStr ''2024-01-01T08:00:00Z''))]\<rparr>)))"
    using odd(1) f by (simp add: post_reminders_ok)
  have st: "status (fst (post_reminders no_faults odd_user (JStr ''Take aspirin'') Undefined
                   (JStr ''2024-01-01T08:00:00Z'') store0)) = 201"
    by (simp add: run)
  have cs: "calls (snd (post_reminders no_faults odd_user (JStr ''Take aspirin'') Undefined
                  (JStr ''2024-01-01T08:00:00Z'') store0))
     = [RemindersAddCall (reminder_data odd_user (JStr ''Take aspirin'') Undefined
                            (JStr ''2024-01-01T08:00:00Z'')),
        UsersDocGet odd_user]"
    by (simp add: run logChange_gives_up [OF odd(2)] s0)
  have ls: "logs (snd (post_reminders no_faults odd_user (JStr ''Take aspirin'') Undefined
                 (JStr ''2024-01-01T08:00:00Z'') store0)) = []"
    by (simp add: run logChange_gives_up [OF odd(2)] s0)
  from odd(1) lookup log st cs ls show ?thesis
    by (intro conjI)
qed

text \<open>The part of that run the claim is about: a 201 and an empty log.\<close>

theorem failed_lookup_skips_log_entry_witness:
  "status (fst (post_reminders no_faults odd_user (JStr ''Take aspirin'') Undefined
                  (JStr ''2024-01-01T08:00:00Z'') store0)) = 201
 \<and> logs (snd (post_reminders no_faults odd_user (JStr ''Take aspirin'') Undefined
                 (JStr ''2024-01-01T08:00:00Z'') store0)) = []"
  using failed_lookup_skips_log_entry by (elim conjE) (intro conjI)

subsection \<open>C9: the in-memory delete succeeds without a match and is idempotent\<close>

lemma filter_no_match: "find P rs = None \<Longrightarrow> filter (\<lambda>r. \<not> P r) rs = rs"
  by (induction rs) (auto split: if_splits)

text \<open>
  C9. In the in-memory service a delete whose \<open>userId\<close> has a bucket (the key of the \<open>userId\<close>
  is a key of the store) answers with success and leaves the bucket without the reminders of the
  given id, whether or not there was one: when there was none the store is unchanged. Doing the
  same delete again answers with success again and leaves the store as the first one left it.
\<close>

theorem mem_delete_idempotent:
  assumes "truthy userId" and "prop_key number_to_string userId = Inr key" and "m key = Some rs"
  shows "mem_delete_reminders number_to_string reminderId userId m =
           (Response 200 (MessageBody ''Reminder deleted successfully''),
            m(key \<mapsto> filter (\<lambda>r. \<not> has_id reminderId r) rs))
       \<and> (find (has_id reminderId) rs = None \<longrightarrow>
            mem_delete_reminders number_to_string reminderId userId m =
              (Response 200 (MessageBody ''Reminder deleted successfully''), m))
       \<and> mem_delete_reminders number_to_string reminderId userId
            (snd (mem_delete_reminders number_to_string reminderId userId m))
           = mem_delete_reminders number_to_string reminderId userId m"
proof -
  have first: "mem_delete_reminders number_to_string reminderId userId m =
           (Response 200 (MessageBody ''Reminder deleted successfully''),
            m(key \<mapsto> filter (\<lambda>r. \<not> has_id reminderId r) rs))"
    using assms by (simp add: mem_delete_reminders_def get_slot_def)
  have same: "m(key \<mapsto> rs) = m"
    using assms(3) by (rule map_upd_triv)
  have none: "find (has_id reminderId) rs = None \<longrightarrow>
            mem_delete_reminders number_to_string reminderId userId m =
              (Response 200 (MessageBody ''Reminder deleted successfully''), m)"
    using first same by (simp add: filter_no_match)
  have again: "mem_delete_reminders number_to_string reminderId userId
                 (m(key \<mapsto> filter (\<lambda>r. \<not> has_id reminderId r) rs))
           = (Response 200 (MessageBody ''Reminder deleted successfully''),
              m(key \<mapsto> filter (\<lambda>r. \<not> has_id reminderId r) rs))"
    using assms(1,2) by (simp add: mem_delete_reminders_def get_slot_def)
  from first none again show ?thesis by simp
qed

text \<open>
  At a concrete run: user \<open>u1\<close> deletes \<open>r9\<close>, which is not there (success, store unchanged),
  and deletes \<open>r1\<close> twice.
\<close>

theorem mem_delete_idempotent_witness:
  "mem_delete_reminders decimal_string ''r9'' (JStr ''u1'') mem0 =
     (Response 200 (MessageBody ''Reminder deleted successfully''), mem0)
 \<and> mem_delete_reminders decimal_string ''r1'' (JStr ''u1'') mem0 =
     (Response 200 (MessageBody ''Reminder deleted successfully''), [''u1'' \<mapsto> []])
 \<and> mem_delete_reminders decimal_string ''r1'' (JStr ''u1'')
      (snd (mem_delete_reminders decimal_string ''r1'' (JStr ''u1'') mem0)) =
     (Response 200 (MessageBody ''Reminder deleted successfully''), [''u1'' \<mapsto> []])"
proof -
  have k: "prop_key decimal_string (JStr ''u1'') = Inr ''u1''"
    by (simp add: prop_key_def)
  have b: "mem0 ''u1'' = Some [mem_aspirin]"
    by (simp add: mem0_def)
  have id1: "has_id ''r1'' mem_aspirin" and id9: "\<not> has_id ''r9'' mem_aspirin"
    by (simp_all add: has_id_def strict_eq_def field_def mem_aspirin_def)
  have upd: "mem0(''u1'' \<mapsto> []) = [''u1'' \<mapsto> []]"
    by (simp add: mem0_def)
  have t: "truthy (JStr ''u1'')"
    by simp
  have nine: "find (has_id ''r9'') [mem_aspirin] = None"
    using id9 by simp
  note at_r9 = mem_delete_idempotent
                 [of "JStr ''u1''" decimal_string "''u1''" mem0 "[mem_aspirin]" "''r9''", OF t k b]
  note at_r1 = mem_delete_idempotent
                 [of "JStr ''u1''" decimal_string "''u1''" mem0 "[mem_aspirin]" "''r1''", OF t k b]
  from at_r9 [THEN conjunct2, THEN conjunct1] nine
  have one: "mem_delete_reminders decimal_string ''r9'' (JStr ''u1'') mem0 =
     (Response 200 (MessageBody ''Reminder deleted successfully''), mem0)"
    by simp
  from at_r1 [THEN conjunct1] id1 upd
  have first: "mem_delete_reminders decimal_string ''r1'' (JStr ''u1'') mem0 =
     (Response 200 (MessageBody ''Reminder deleted successfully''), [''u1'' \<mapsto> []])"
    by simp
  have again: "mem_delete_reminders decimal_string ''r1'' (JStr ''u1'')
                 (snd (mem_delete_reminders decimal_string ''r1'' (JStr ''u1'') mem0)) =
     (Response 200 (MessageBody ''Reminder deleted successfully''), [''u1'' \<mapsto> []])"
    using at_r1 [THEN conjunct2, THEN conjunct2] first by (rule trans)
  note two = conjI [OF first again]
  from one two show ?thesis by blast
qed

subsection \<open>C10: an update without fields\<close>

lemma put_updates_none: "put_updates Undefined Undefined Undefined Undefined = Map.empty"
  unfolding put_updates_def by simp

text \<open>
  An authorised update issues the store update with the patch it built before anything else
  happens, whatever the patch: the handler has no test for an empty one. When that update throws,
  the handler answers 500 and has appended nothing.
\<close>

lemma put_reminders_update_throws:
  assumes "truthy userId" "faults e RemindersGet = None"
    and "map_of (reminders s) reminderId = Some old" "strict_eq (field old ''userId'') userId"
    and "faults e RemindersUpdate = Some msg"
  shows "put_reminders e reminderId userId title description datetime completed s =
     (Response 500 (ErrorDetailsBody ''Failed to update reminder'' msg),
      s\<lparr>calls := calls s @
          [RemindersDocGet reminderId,
           RemindersDocUpdate reminderId (put_updates title description datetime completed)]\<rparr>)"
  using assms
  unfolding put_reminders_def reminders_doc_get_def reminders_doc_update_def issue_def
    not_found_or_unauthorized_def
  by (simp add: Let_def)

text \<open>
  C10. The claim is what the handler is written to do: its comment gives all four fields as
  optional, and the in-memory update answers a request without fields with 200 and the reminder
  as it was. On Firestore the code misses it. For \<open>u1\<close> updating \<open>r1\<close> with no field the patch
  is empty and the handler does issue the update with it; the client library rejects an update
  without a field, the handler's \<^verbatim>\<open>catch\<close> answers 500 \<open>Failed to update reminder\<close>, and no
  entry is appended and no reminder returned, where the claim has an \<open>UPDATE\<close> entry with an
  empty delta and the stored record in the answer.
\<close>

theorem update_without_fields_fails:
  "put_updates Undefined Undefined Undefined Undefined = Map.empty
 \<and> put_reminders update_rejected ''r1'' (JStr ''u1'') Undefined Undefined Undefined Undefined store0 =
     (Response 500
        (ErrorDetailsBody ''Failed to update reminder'' ''At least one field must be updated.''),
      store0\<lparr>calls := [RemindersDocGet ''r1'', RemindersDocUpdate ''r1'' Map.empty]\<rparr>)
 \<and> mem_put_reminders decimal_string ''r1'' (JStr ''u1'') Undefined Undefined Undefined Undefined mem0 =
     (Response 200 (ReminderBody ''Reminder updated successfully'' mem_aspirin), mem0)"
proof -
  have f: "faults update_rejected RemindersGet = None"
    "faults update_rejected RemindersUpdate = Some ''At least one field must be updated.''"
    by (simp_all add: update_rejected_def)
  have r1: "map_of (reminders store0) ''r1'' = Some aspirin" and c0: "calls store0 = []"
    by (simp_all add: store0_def)
  have t: "truthy (JStr ''u1'')"
    by simp
  have one: "put_reminders update_rejected ''r1'' (JStr ''u1'') Undefined Undefined Undefined
               Undefined store0 =
     (Response 500
        (ErrorDetailsBody ''Failed to update reminder'' ''At least one field must be updated.''),
      store0\<lparr>calls := [RemindersDocGet ''r1'', RemindersDocUpdate ''r1'' Map.empty]\<rparr>)"
    using put_reminders_update_throws [OF t f(1) r1 store0_owner f(2),
            of Undefined Undefined Undefined Undefined]
    by (simp add: put_updates_none c0)
  have id1: "has_id ''r1'' mem_aspirin"
    by (simp add: has_id_def strict_eq_def field_def mem_aspirin_def)
  have same: "mem_assign Undefined Undefined Undefined Undefined mem_aspirin = mem_aspirin"
    by (simp add: mem_assign_def)
  have slot: "get_slot mem0 ''u1'' = Bucket [mem_aspirin]"
    by (simp add: get_slot_def mem0_def)
  have store: "mem0(''u1'' \<mapsto> [mem_aspirin]) = mem0"
    by (simp add: mem0_def)
  have two: "mem_put_reminders decimal_string ''r1'' (JStr ''u1'') Undefined Undefined Undefined
               Undefined mem0 =
     (Response 200 (ReminderBody ''Reminder updated successfully'' mem_aspirin), mem0)"
    by (simp add: mem_put_reminders_def prop_key_def slot id1 same store)
  from put_updates_none one two show ?thesis
    by (intro conjI)
qed

text \<open>The part of that run the claim is about: the answer of the Firestore handler.\<close>

theorem update_without_fields_fails_witness:
  "put_reminders update_rejected ''r1'' (JStr ''u1'') Undefined Undefined Undefined Undefined store0 =
     (Response 500
        (ErrorDetailsBody ''Failed to update reminder'' ''At least one field must be updated.''),
      store0\<lparr>calls := [RemindersDocGet ''r1'', RemindersDocUpdate ''r1'' Map.empty]\<rparr>)"
  using update_without_fields_fails by (elim conjE)

end
